theory Spec2Isabelle
  imports Complex_Main "HOL-Library.AList" "HOL-Library.Multiset" "HOL-Library.Word"
begin

section \<open>Configuration\<close>

text \<open>
  The constants of \<^verbatim>\<open>protocolo_udp.py\<close>. \<^verbatim>\<open>ACK_TIMEOUT\<close> bounds the polling of
  \<^verbatim>\<open>wait_for_ack\<close> in wall-clock time; in the model the number of polls of one wait is
  given by the schedule of the attempt (see below), so the constant is only recorded.
\<close>

definition UDP_PORT :: int where "UDP_PORT = 5000"
definition ACK_TIMEOUT :: real where "ACK_TIMEOUT = 2"
definition MAX_RETRIES :: nat where "MAX_RETRIES = 10"
definition CHUNK_SIZE :: int where "CHUNK_SIZE = 250"

section \<open>Python builtins used by the program\<close>

text \<open>
  A Python \<^verbatim>\<open>str\<close> is modelled as a \<^typ>\<open>string\<close> whose characters are read as code
  points below 256; \<^verbatim>\<open>bytes\<close> are lists of 8-bit words.
\<close>

type_synonym bytes = "8 word list"

datatype exn = IndexError | KeyError | ValueError | OSError | ZeroDivisionError

text \<open>\<^verbatim>\<open>str.isspace\<close> on one code point below 256: TAB..CR, FS..US, space, NEL, NBSP.\<close>

definition isspace :: "char \<Rightarrow> bool" where
  "isspace c \<longleftrightarrow> c \<in> set [CHR 0x09, CHR 0x0A, CHR 0x0B, CHR 0x0C, CHR 0x0D,
      CHR 0x1C, CHR 0x1D, CHR 0x1E, CHR 0x1F, CHR 0x20, CHR 0x85, CHR 0xA0]"

text \<open>
  \<^verbatim>\<open>s.split(maxsplit=n)\<close>: runs of whitespace separate the fields, at most \<open>n\<close> splits
  are made, and what remains after the last split is kept whole, without its leading
  whitespace.
\<close>

fun py_split :: "nat \<Rightarrow> string \<Rightarrow> string list" where
  "py_split 0 s = (let r = dropWhile isspace s in if r = [] then [] else [r])"
| "py_split (Suc n) s =
     (let r = dropWhile isspace s in
      if r = [] then []
      else takeWhile (\<lambda>c. \<not> isspace c) r # py_split n (dropWhile (\<lambda>c. \<not> isspace c) r))"

definition py_strip :: "string \<Rightarrow> string" where
  "py_strip s = rev (dropWhile isspace (rev (dropWhile isspace s)))"

definition digit_val :: "char \<Rightarrow> int option" where
  "digit_val c =
     (let n = (of_char c :: nat) in if 48 \<le> n \<and> n \<le> 57 then Some (int n - 48) else None)"

text \<open>The digits of a decimal literal after the first one; one underscore may stand
  between two digits.\<close>

fun more_digits :: "int \<Rightarrow> string \<Rightarrow> int option" where
  "more_digits acc [] = Some acc"
| "more_digits acc [c] = (case digit_val c of Some d \<Rightarrow> Some (10 * acc + d) | None \<Rightarrow> None)"
| "more_digits acc (c # d # cs) =
     (case digit_val c of
        Some v \<Rightarrow> more_digits (10 * acc + v) (d # cs)
      | None \<Rightarrow>
          if c = CHR ''_'' then
            (case digit_val d of Some v \<Rightarrow> more_digits (10 * acc + v) cs | None \<Rightarrow> None)
          else None)"

definition unsigned_int :: "string \<Rightarrow> int option" where
  "unsigned_int s =
     (case s of [] \<Rightarrow> None
      | c # cs \<Rightarrow> (case digit_val c of Some v \<Rightarrow> more_digits v cs | None \<Rightarrow> None))"

text \<open>
  The whitespace \<^verbatim>\<open>int\<close> ignores around a literal: TAB..CR, space, NEL and NBSP. The
  separators FS..US, which \<^verbatim>\<open>str.strip\<close> removes, are not among them.
\<close>

definition int_space :: "char \<Rightarrow> bool" where
  "int_space c \<longleftrightarrow> c \<in> set [CHR 0x09, CHR 0x0A, CHR 0x0B, CHR 0x0C, CHR 0x0D,
      CHR 0x20, CHR 0x85, CHR 0xA0]"

text \<open>
  \<^verbatim>\<open>int(s)\<close> on a string, base 10: surrounding whitespace is ignored, one sign is
  allowed; \<open>None\<close> stands for \<^verbatim>\<open>ValueError\<close>. (The interpreter's optional cap on the
  number of digits is not part of the model.)
\<close>

definition py_int :: "string \<Rightarrow> int option" where
  "py_int s =
     (case rev (dropWhile int_space (rev (dropWhile int_space s))) of
        [] \<Rightarrow> None
      | c # cs \<Rightarrow>
          if c = CHR ''-'' then map_option uminus (unsigned_int cs)
          else if c = CHR ''+'' then unsigned_int cs
          else unsigned_int (c # cs))"

text \<open>\<^verbatim>\<open>str(n)\<close> for an integer, as the f-strings format it.\<close>

fun str_nat :: "nat \<Rightarrow> string" where
  "str_nat n =
     (if n < 10 then [''0123456789'' ! n]
      else str_nat (n div 10) @ [''0123456789'' ! (n mod 10)])"

declare str_nat.simps [simp del]

definition py_str :: "int \<Rightarrow> string" where
  "py_str i = (if i < 0 then CHR ''-'' # str_nat (nat (- i)) else str_nat (nat i))"

section \<open>The file system\<close>

text \<open>
  The files of the machine, and which operations the operating system refuses
  (\<^verbatim>\<open>open(path, "wb")\<close>, \<^verbatim>\<open>open(path, "rb")\<close>, \<^verbatim>\<open>os.remove(path)\<close>); a refused operation
  raises \<^verbatim>\<open>OSError\<close>.
\<close>

datatype fs_op = Open_wb | Open_rb | Remove

record filesystem =
  files :: "string \<rightharpoonup> bytes"
  refused :: "fs_op \<Rightarrow> string \<Rightarrow> bool"

definition open_wb :: "filesystem \<Rightarrow> string \<Rightarrow> exn + filesystem" where
  "open_wb fs path =
     (if refused fs Open_wb path then Inl OSError
      else Inr (fs\<lparr>files := (files fs)(path \<mapsto> [])\<rparr>))"

definition write_all :: "filesystem \<Rightarrow> string \<Rightarrow> bytes \<Rightarrow> filesystem" where
  "write_all fs path data = fs\<lparr>files := (files fs)(path \<mapsto> data)\<rparr>"

definition read_all :: "filesystem \<Rightarrow> string \<Rightarrow> exn + bytes" where
  "read_all fs path =
     (if refused fs Open_rb path then Inl OSError
      else case files fs path of None \<Rightarrow> Inl OSError | Some data \<Rightarrow> Inr data)"

definition os_remove :: "filesystem \<Rightarrow> string \<Rightarrow> exn + filesystem" where
  "os_remove fs path =
     (if refused fs Remove path \<or> files fs path = None then Inl OSError
      else Inr (fs\<lparr>files := (files fs)(path := None)\<rparr>))"

text \<open>
  \<^verbatim>\<open>calculate_file_hash\<close>: the hexadecimal SHA-256 digest of the file's bytes. The digest
  function of \<^verbatim>\<open>hashlib\<close> is a parameter \<open>sha256_hex\<close> of the model.
\<close>

definition calculate_file_hash :: "(bytes \<Rightarrow> string) \<Rightarrow> filesystem \<Rightarrow> string \<Rightarrow> exn + string" where
  "calculate_file_hash sha256_hex fs file_path =
     (case read_all fs file_path of Inl e \<Rightarrow> Inl e | Inr data \<Rightarrow> Inr (sha256_hex data))"

section \<open>The global state\<close>

text \<open>
  What the highlighted console blocks show: a new message (sender, content), the start
  of a file reception (sender, file name, size) and a received file (sender, file name,
  size, path). Diagnostic log lines are not part of the model.
\<close>

datatype display =
    NovaMensagem string string
  | RecebendoArquivo string string int
  | ArquivoRecebido string string int string

text \<open>
  The module's globals. \<open>known_devices\<close> and the chunks of one file are Python
  dictionaries whose order is observed (iteration, \<^verbatim>\<open>sorted(keys())\<close>), so they are
  association lists in insertion order; the other dictionaries are only looked up and
  are maps. \<open>disk\<close> is the file system, \<open>sent\<close> the datagrams handed to
  \<^verbatim>\<open>send_message_to_ip\<close> by the message handler (address, port, text), in order, and
  \<open>shown\<close> the console blocks, in order.
\<close>

record state =
  device_name :: string
  known_devices :: "(string \<times> (string \<times> int \<times> real)) list"
  received_ids :: "string set"
  ack_received :: "string \<rightharpoonup> bool"
  pending_files :: "string \<rightharpoonup> (string \<times> int \<times> int \<times> string)"
  file_chunks :: "string \<rightharpoonup> (int \<times> bytes) list"
  disk :: filesystem
  sent :: "(string \<times> int \<times> string) list"
  shown :: "display list"

text \<open>A call of \<^verbatim>\<open>send_message_to_ip\<close> whose result the caller ignores.\<close>

definition send_message_to_ip :: "state \<Rightarrow> string \<Rightarrow> int \<Rightarrow> string \<Rightarrow> state" where
  "send_message_to_ip st ip port message = st\<lparr>sent := sent st @ [(ip, port, message)]\<rparr>"

definition print_block :: "state \<Rightarrow> display \<Rightarrow> state" where
  "print_block st d = st\<lparr>shown := shown st @ [d]\<rparr>"

text \<open>The sender shown for an address: the first known device with that address.\<close>

fun identify_sender :: "(string \<times> (string \<times> int \<times> real)) list \<Rightarrow> string \<Rightarrow> string" where
  "identify_sender [] ip = ''Dispositivo desconhecido''"
| "identify_sender ((name, (dev_ip, _, _)) # rest) ip =
     (if dev_ip = ip then name else identify_sender rest ip)"

section \<open>The message handler\<close>

definition on_heartbeat :: "state \<Rightarrow> real \<Rightarrow> string list \<Rightarrow> string \<times> int \<Rightarrow> state" where
  "on_heartbeat st current_time parts addr =
     (let device_name_received = parts ! 1 in
      if device_name_received \<noteq> device_name st then
        st\<lparr>known_devices :=
             AList.update device_name_received (fst addr, snd addr, current_time)
               (known_devices st)\<rparr>
      else st)"

definition on_talk :: "state \<Rightarrow> string list \<Rightarrow> string \<times> int \<Rightarrow> state" where
  "on_talk st parts addr =
     (let message_id = parts ! 1; content = parts ! 2; ip = fst addr in
      if message_id \<in> received_ids st then
        send_message_to_ip st ip UDP_PORT (''ACK '' @ message_id)
      else
        let st1 = st\<lparr>received_ids := insert message_id (received_ids st)\<rparr>;
            sender = identify_sender (known_devices st1) ip;
            st2 = print_block st1 (NovaMensagem sender content)
        in send_message_to_ip st2 ip UDP_PORT (''ACK '' @ message_id))"

definition on_file :: "state \<Rightarrow> string list \<Rightarrow> string \<times> int \<Rightarrow> state" where
  "on_file st parts addr =
     (let file_id = parts ! 1; filename = parts ! 2; ip = fst addr in
      case py_int (parts ! 3) of
        None \<Rightarrow> st
      | Some file_size \<Rightarrow>
          if pending_files st file_id \<noteq> None then
            send_message_to_ip st ip UDP_PORT (''ACK '' @ file_id)
          else
            let sender = identify_sender (known_devices st) ip;
                st1 = print_block st (RecebendoArquivo sender filename file_size);
                st2 = st1\<lparr>file_chunks := (file_chunks st1)(file_id \<mapsto> [])\<rparr>;
                st3 = st2\<lparr>pending_files :=
                        (pending_files st2)(file_id \<mapsto> (filename, file_size, 0, sender))\<rparr>
            in send_message_to_ip st3 ip UDP_PORT (''ACK '' @ file_id))"

text \<open>
  The body of the \<^verbatim>\<open>try\<close> of the CHUNK branch: the exception raised, if any, and the
  state reached. \<^verbatim>\<open>base64.b64decode\<close> is a parameter (\<open>None\<close>: it raises
  \<^verbatim>\<open>binascii.Error\<close>, a \<^verbatim>\<open>ValueError\<close>). The chunk is stored and counted before the
  progress is computed; when the declared size gives zero chunks the division raises
  and the ACK is not reached.
\<close>

definition chunk_try ::
  "(string \<Rightarrow> bytes option) \<Rightarrow> state \<Rightarrow> string \<Rightarrow> string \<Rightarrow> int \<Rightarrow> string \<Rightarrow>
   (string \<times> int \<times> int \<times> string) \<Rightarrow> (int \<times> bytes) list \<Rightarrow> exn option \<times> state" where
  "chunk_try b64decode st ip file_id seq data_b64 entry chunks =
     (case entry of (filename, file_size, chunks_received, sender) \<Rightarrow>
      case b64decode data_b64 of
        None \<Rightarrow> (Some ValueError, st)
      | Some chunk_data \<Rightarrow>
          let st1 = st\<lparr>file_chunks :=
                  (file_chunks st)(file_id \<mapsto> AList.update seq chunk_data chunks)\<rparr>;
              st2 = st1\<lparr>pending_files :=
                  (pending_files st1)(file_id \<mapsto>
                     (filename, file_size, chunks_received + 1, sender))\<rparr>;
              total_chunks = (file_size + CHUNK_SIZE - 1) div CHUNK_SIZE
          in if total_chunks = 0 then (Some ZeroDivisionError, st2)
             else (None, send_message_to_ip st2 ip UDP_PORT
                           (''ACK '' @ file_id @ ''-'' @ py_str seq)))"

text \<open>
  The CHUNK branch. The membership test on \<^verbatim>\<open>file_chunks[file_id]\<close> stands before the
  \<^verbatim>\<open>try\<close>, so a missing entry raises \<^verbatim>\<open>KeyError\<close> out of the handler. An exception
  inside the \<^verbatim>\<open>try\<close> is logged and nothing more is done.
\<close>

definition on_chunk ::
  "(string \<Rightarrow> bytes option) \<Rightarrow> state \<Rightarrow> string list \<Rightarrow> string \<times> int \<Rightarrow> exn + state" where
  "on_chunk b64decode st parts addr =
     (let file_id = parts ! 1; ip = fst addr in
      case py_int (parts ! 2) of
        None \<Rightarrow> Inr st
      | Some seq \<Rightarrow>
          let data_b64 = parts ! 3 in
          case pending_files st file_id of
            None \<Rightarrow> Inr st
          | Some entry \<Rightarrow>
              (case file_chunks st file_id of
                 None \<Rightarrow> Inl KeyError
               | Some chunks \<Rightarrow>
                   if map_of chunks seq \<noteq> None then
                     Inr (send_message_to_ip st ip UDP_PORT
                            (''ACK '' @ file_id @ ''-'' @ py_str seq))
                   else
                     (case chunk_try b64decode st ip file_id seq data_b64 entry chunks of
                        (raised, st') \<Rightarrow> Inr st')))"

text \<open>
  The bytes written for the sequence numbers \<open>seqs\<close>, each looked up in the chunk
  dictionary as \<^verbatim>\<open>file_chunks[file_id][seq]\<close> is.
\<close>

fun write_chunks :: "(int \<times> bytes) list \<Rightarrow> int list \<Rightarrow> exn + bytes" where
  "write_chunks chunks [] = Inr []"
| "write_chunks chunks (seq # seqs) =
     (case map_of chunks seq of
        None \<Rightarrow> Inl KeyError
      | Some data \<Rightarrow>
          (case write_chunks chunks seqs of Inl e \<Rightarrow> Inl e | Inr rest \<Rightarrow> Inr (data @ rest)))"

text \<open>
  The body of the \<^verbatim>\<open>try\<close> of the END branch: the exception raised, if any, and the
  state reached. The output file is opened (created or truncated) before the chunk
  dictionary is read.
\<close>

definition end_try ::
  "(bytes \<Rightarrow> string) \<Rightarrow> state \<Rightarrow> string \<Rightarrow> string \<Rightarrow> string \<Rightarrow>
   (string \<times> int \<times> int \<times> string) \<Rightarrow> exn option \<times> state" where
  "end_try sha256_hex st ip file_id received_hash entry =
     (case entry of (filename, file_size, chunks_received, sender) \<Rightarrow>
      let output_path = ''/root/'' @ filename in
      case open_wb (disk st) output_path of
        Inl e \<Rightarrow> (Some e, st)
      | Inr fs1 \<Rightarrow>
          let st1 = st\<lparr>disk := fs1\<rparr> in
          (case file_chunks st1 file_id of
             None \<Rightarrow> (Some KeyError, st1)
           | Some chunks \<Rightarrow>
               (case write_chunks chunks (sort (map fst chunks)) of
                  Inl e \<Rightarrow> (Some e, st1)
                | Inr data \<Rightarrow>
                    let st2 = st1\<lparr>disk := write_all fs1 output_path data\<rparr> in
                    (case calculate_file_hash sha256_hex (disk st2) output_path of
                       Inl e \<Rightarrow> (Some e, st2)
                     | Inr calculated_hash \<Rightarrow>
                         if calculated_hash \<noteq> received_hash then
                           (case os_remove (disk st2) output_path of
                              Inl e \<Rightarrow> (Some e, st2)
                            | Inr fs3 \<Rightarrow>
                                let st3 = st2\<lparr>disk := fs3\<rparr>;
                                    st4 = send_message_to_ip st3 ip UDP_PORT
                                            (''NACK '' @ file_id @ '' hash_invalido'');
                                    st5 = st4\<lparr>pending_files := (pending_files st4)(file_id := None)\<rparr>;
                                    st6 = st5\<lparr>file_chunks := (file_chunks st5)(file_id := None)\<rparr>
                                in (None, st6))
                         else
                           let st3 = print_block st2
                                       (ArquivoRecebido sender filename file_size output_path);
                               st4 = send_message_to_ip st3 ip UDP_PORT (''ACK '' @ file_id);
                               st5 = st4\<lparr>pending_files := (pending_files st4)(file_id := None)\<rparr>;
                               st6 = st5\<lparr>file_chunks := (file_chunks st5)(file_id := None)\<rparr>
                           in (None, st6)))))"

definition on_end ::
  "(bytes \<Rightarrow> string) \<Rightarrow> state \<Rightarrow> string list \<Rightarrow> string \<times> int \<Rightarrow> state" where
  "on_end sha256_hex st parts addr =
     (let file_id = parts ! 1; received_hash = parts ! 2; ip = fst addr in
      case pending_files st file_id of
        None \<Rightarrow> st
      | Some entry \<Rightarrow>
          (case end_try sha256_hex st ip file_id received_hash entry of
             (None, st') \<Rightarrow> st'
           | (Some e, st') \<Rightarrow>
               send_message_to_ip st' ip UDP_PORT
                 (''NACK '' @ file_id @ '' erro_processamento'')))"

text \<open>
  \<^verbatim>\<open>handle_message\<close>. \<open>Inl\<close> is an exception that leaves the handler (the listener
  logs it); it is raised before the handler has changed anything. The ACK branch has
  no length test, so a bare \<^verbatim>\<open>ACK\<close> raises \<^verbatim>\<open>IndexError\<close>. \<open>current_time\<close> is the
  value \<^verbatim>\<open>time.time()\<close> returns.
\<close>

definition handle_message ::
  "(string \<Rightarrow> bytes option) \<Rightarrow> (bytes \<Rightarrow> string) \<Rightarrow> real \<Rightarrow> state \<Rightarrow> string \<Rightarrow>
   string \<times> int \<Rightarrow> exn + state" where
  "handle_message b64decode sha256_hex current_time st message addr =
     (let parts = py_split 3 message in
      if length parts < 1 then Inr st
      else
        let message_type = parts ! 0 in
        if message_type = ''HEARTBEAT'' \<and> length parts \<ge> 2 then
          Inr (on_heartbeat st current_time parts addr)
        else if message_type = ''TALK'' \<and> length parts \<ge> 3 then
          Inr (on_talk st parts addr)
        else if message_type = ''FILE'' \<and> length parts \<ge> 4 then
          Inr (on_file st parts addr)
        else if message_type = ''CHUNK'' \<and> length parts \<ge> 4 then
          on_chunk b64decode st parts addr
        else if message_type = ''END'' \<and> length parts \<ge> 3 then
          Inr (on_end sha256_hex st parts addr)
        else if message_type = ''ACK'' then
          (if length parts < 2 then Inl IndexError
           else Inr (st\<lparr>ack_received := (ack_received st)(parts ! 1 \<mapsto> True)\<rparr>))
        else if message_type = ''NACK'' \<and> length parts \<ge> 3 then
          Inr (st\<lparr>ack_received := (ack_received st)(parts ! 1 \<mapsto> False)\<rparr>)
        else Inr st)"

text \<open>
  One turn of the loop of \<^verbatim>\<open>listen_for_messages\<close>: the datagram is stripped and handled;
  an exception that leaves the handler is logged and the loop goes on. A datagram is
  given with the time at which it is handled and its source address. The loop is run
  over the datagrams received, in order.
\<close>

definition receive ::
  "(string \<Rightarrow> bytes option) \<Rightarrow> (bytes \<Rightarrow> string) \<Rightarrow> state \<Rightarrow>
   real \<times> string \<times> (string \<times> int) \<Rightarrow> state" where
  "receive b64decode sha256_hex st datagram =
     (case datagram of (current_time, data, addr) \<Rightarrow>
        (case handle_message b64decode sha256_hex current_time st (py_strip data) addr of
           Inl e \<Rightarrow> st
         | Inr st' \<Rightarrow> st'))"

definition listen_for_messages ::
  "(string \<Rightarrow> bytes option) \<Rightarrow> (bytes \<Rightarrow> string) \<Rightarrow> state \<Rightarrow>
   (real \<times> string \<times> (string \<times> int)) list \<Rightarrow> state" where
  "listen_for_messages b64decode sha256_hex st datagrams =
     foldl (receive b64decode sha256_hex) st datagrams"

text \<open>
  The chunk a datagram carries for a file id, read as the wire format says
  (\<^verbatim>\<open>CHUNK <file_id> <seq> <base64_payload>\<close>): its sequence number and its bytes.
\<close>

definition chunk_of :: "(string \<Rightarrow> bytes option) \<Rightarrow> string \<Rightarrow> string \<Rightarrow> (int \<times> bytes) option" where
  "chunk_of b64decode file_id data =
     (case py_split 3 (py_strip data) of
        [message_type, f, s, p] \<Rightarrow>
          if message_type = ''CHUNK'' \<and> f = file_id then
            (case py_int s of
               None \<Rightarrow> None
             | Some seq \<Rightarrow>
                 (case b64decode p of None \<Rightarrow> None | Some payload \<Rightarrow> Some (seq, payload)))
          else None
      | _ \<Rightarrow> None)"

section \<open>The delivery tracker\<close>

text \<open>
  The listener thread runs beside the thread of an outbound operation and records
  acknowledgments in \<open>ack_received\<close> (the ACK and NACK branches above). Every access
  to the dictionary is made under \<^verbatim>\<open>ack_lock\<close>, so a run is an interleaving of whole
  accesses. What the listener and the network do during one send attempt is given by
  an \<open>attempt\<close>: whether \<^verbatim>\<open>sendto\<close> succeeds, the records written before
  \<^verbatim>\<open>wait_for_ack\<close> clears the entry (\<open>early\<close>; they include those written while the
  sender sleeps), for each poll that happens before the timeout, the records written
  since the previous access (\<open>polls\<close>), and the records written after the last poll,
  during the pause that ends the wait (\<open>late\<close>). A record is the pair of the id and
  \<open>True\<close> for an ACK, \<open>False\<close> for a NACK.
\<close>

type_synonym tracker = "string \<rightharpoonup> bool"

record attempt =
  send_ok :: bool
  early :: "(string \<times> bool) list"
  polls :: "(string \<times> bool) list list"
  late :: "(string \<times> bool) list"

fun record_all :: "(string \<times> bool) list \<Rightarrow> tracker \<Rightarrow> tracker" where
  "record_all [] acks = acks"
| "record_all ((ack_id, positive) # rest) acks = record_all rest (acks(ack_id \<mapsto> positive))"

text \<open>The polling loop of \<^verbatim>\<open>wait_for_ack\<close>: \<open>Some True\<close> for an ACK, \<open>Some False\<close> for a
  NACK, \<open>None\<close> when the time is over; the tracker is the one of the last poll.\<close>

fun poll_ack :: "string \<Rightarrow> (string \<times> bool) list list \<Rightarrow> tracker \<Rightarrow> bool option \<times> tracker" where
  "poll_ack ack_id [] acks = (None, acks)"
| "poll_ack ack_id (written # later) acks =
     (let acks' = record_all written acks in
      case acks' ack_id of
        Some positive \<Rightarrow> (Some positive, acks')
      | None \<Rightarrow> poll_ack ack_id later acks')"

text \<open>
  \<^verbatim>\<open>wait_for_ack\<close>: a record for the id is deleted, then the dictionary is polled. A
  record that is found is returned from inside the lock. When the time is over the
  function returns \<open>None\<close> without reading the dictionary again, so the records
  written after the last poll are in it at the return.
\<close>

definition wait_for_ack :: "string \<Rightarrow> attempt \<Rightarrow> tracker \<Rightarrow> bool option \<times> tracker" where
  "wait_for_ack ack_id e acks =
     (case poll_ack ack_id (polls e) ((record_all (early e) acks)(ack_id := None)) of
        (Some positive, acks') \<Rightarrow> (Some positive, acks')
      | (None, acks') \<Rightarrow> (None, record_all (late e) acks'))"

section \<open>Outbound operations\<close>

text \<open>
  What an outbound operation does, in order: the ids it generates, its calls of
  \<^verbatim>\<open>send_message_to_ip\<close> with their results, its calls of \<^verbatim>\<open>wait_for_ack\<close> with their
  results, and its calls of \<^verbatim>\<open>time.sleep\<close> between attempts.
\<close>

datatype action =
    GenerateId string
  | SendTo string int string bool
  | WaitForAck string "bool option"
  | Sleep real

text \<open>How a retry loop is left: by \<^verbatim>\<open>break\<close>, by \<^verbatim>\<open>return\<close>, or at the end of its range.\<close>

datatype loop_exit = Break | Return bool | Exhausted

definition generate_message_id :: "string \<Rightarrow> int \<Rightarrow> int \<Rightarrow> string" where
  "generate_message_id name seconds rnd = name @ ''-'' @ py_str seconds @ ''-'' @ py_str rnd"

text \<open>
  The head of every retry loop: \<^verbatim>\<open>if send_message_to_ip(...): result = wait_for_ack(...)\<close>.
  The result is \<open>None\<close> when the send failed (nothing is awaited) or the wait timed out.
\<close>

definition send_and_wait ::
  "attempt \<Rightarrow> string \<Rightarrow> string \<Rightarrow> string \<Rightarrow> tracker \<Rightarrow> bool option \<times> action list \<times> tracker" where
  "send_and_wait e ip message ack_id acks =
     (if send_ok e then
        (case wait_for_ack ack_id e acks of
           (result, acks') \<Rightarrow>
             (result, [SendTo ip UDP_PORT message True, WaitForAck ack_id result], acks'))
      else (None, [SendTo ip UDP_PORT message False], record_all (early e) acks))"

definition backoff :: "nat \<Rightarrow> action list" where
  "backoff attempt = (if attempt < MAX_RETRIES then [Sleep 1] else [])"

text \<open>The loop of \<^verbatim>\<open>talk_to_device\<close>.\<close>

fun talk_attempts ::
  "(nat \<Rightarrow> attempt) \<Rightarrow> string \<Rightarrow> string \<Rightarrow> string \<Rightarrow> nat list \<Rightarrow> tracker \<Rightarrow>
   loop_exit \<times> action list \<times> tracker" where
  "talk_attempts env ip message_id message [] acks = (Exhausted, [], acks)"
| "talk_attempts env ip message_id message (attempt # rest) acks =
     (case send_and_wait (env attempt) ip message message_id acks of
        (Some True, tr, acks') \<Rightarrow> (Return True, tr, acks')
      | (Some False, tr, acks') \<Rightarrow> (Return False, tr, acks')
      | (None, tr, acks') \<Rightarrow>
          (case talk_attempts env ip message_id message rest acks' of
             (exit, tr', acks'') \<Rightarrow> (exit, tr @ backoff attempt @ tr', acks'')))"

definition talk_to_device ::
  "(nat \<Rightarrow> attempt) \<Rightarrow> int \<Rightarrow> int \<Rightarrow> state \<Rightarrow> string \<Rightarrow> string \<Rightarrow> bool \<times> action list \<times> tracker" where
  "talk_to_device env seconds rnd st target_device content =
     (case map_of (known_devices st) target_device of
        None \<Rightarrow> (False, [], ack_received st)
      | Some (ip, _, _) \<Rightarrow>
          let message_id = generate_message_id (device_name st) seconds rnd;
              message = ''TALK '' @ message_id @ '' '' @ content
          in case talk_attempts env ip message_id message [1..<MAX_RETRIES + 1] (ack_received st) of
               (Return r, tr, acks) \<Rightarrow> (r, GenerateId message_id # tr, acks)
             | (_, tr, acks) \<Rightarrow> (False, GenerateId message_id # tr, acks))"

text \<open>The three loops of \<^verbatim>\<open>transfer_file\<close>: FILE, one CHUNK, END.\<close>

fun file_attempts ::
  "(nat \<Rightarrow> attempt) \<Rightarrow> string \<Rightarrow> string \<Rightarrow> string \<Rightarrow> nat list \<Rightarrow> tracker \<Rightarrow>
   loop_exit \<times> action list \<times> tracker" where
  "file_attempts env ip file_id file_message [] acks = (Exhausted, [], acks)"
| "file_attempts env ip file_id file_message (attempt # rest) acks =
     (case send_and_wait (env attempt) ip file_message file_id acks of
        (Some True, tr, acks') \<Rightarrow> (Break, tr, acks')
      | (Some False, tr, acks') \<Rightarrow> (Return False, tr, acks')
      | (None, tr, acks') \<Rightarrow>
          if attempt < MAX_RETRIES then
            (case file_attempts env ip file_id file_message rest acks' of
               (exit, tr', acks'') \<Rightarrow> (exit, tr @ [Sleep 1] @ tr', acks''))
          else (Return False, tr, acks'))"

fun chunk_attempts ::
  "(nat \<Rightarrow> attempt) \<Rightarrow> string \<Rightarrow> string \<Rightarrow> string \<Rightarrow> nat list \<Rightarrow> tracker \<Rightarrow>
   loop_exit \<times> action list \<times> tracker" where
  "chunk_attempts env ip chunk_ack_id chunk_message [] acks = (Exhausted, [], acks)"
| "chunk_attempts env ip chunk_ack_id chunk_message (attempt # rest) acks =
     (case send_and_wait (env attempt) ip chunk_message chunk_ack_id acks of
        (Some True, tr, acks') \<Rightarrow> (Break, tr, acks')
      | (_, tr, acks') \<Rightarrow>
          if attempt < MAX_RETRIES then
            (case chunk_attempts env ip chunk_ack_id chunk_message rest acks' of
               (exit, tr', acks'') \<Rightarrow> (exit, tr @ [Sleep 1] @ tr', acks''))
          else (Return False, tr, acks'))"

fun end_attempts ::
  "(nat \<Rightarrow> attempt) \<Rightarrow> string \<Rightarrow> string \<Rightarrow> string \<Rightarrow> nat list \<Rightarrow> tracker \<Rightarrow>
   loop_exit \<times> action list \<times> tracker" where
  "end_attempts env ip file_id end_message [] acks = (Exhausted, [], acks)"
| "end_attempts env ip file_id end_message (attempt # rest) acks =
     (case send_and_wait (env attempt) ip end_message file_id acks of
        (Some True, tr, acks') \<Rightarrow> (Return True, tr, acks')
      | (Some False, tr, acks') \<Rightarrow> (Return False, tr, acks')
      | (None, tr, acks') \<Rightarrow>
          if attempt < MAX_RETRIES then
            (case end_attempts env ip file_id end_message rest acks' of
               (exit, tr', acks'') \<Rightarrow> (exit, tr @ [Sleep 1] @ tr', acks''))
          else (Return False, tr, acks'))"

text \<open>The attempts of one transfer are told apart by the message they belong to.\<close>

datatype phase = File_phase | Chunk_phase int | End_phase

text \<open>
  The chunk loop of \<^verbatim>\<open>transfer_file\<close> over the sequence numbers still to send and the
  bytes not yet read; \<^verbatim>\<open>base64.b64encode\<close> is a parameter. \<open>None\<close>: the loop is over and
  the transfer goes on; \<open>Some r\<close>: \<^verbatim>\<open>transfer_file\<close> returns \<open>r\<close>.
\<close>

fun send_chunks ::
  "(bytes \<Rightarrow> string) \<Rightarrow> (phase \<Rightarrow> nat \<Rightarrow> attempt) \<Rightarrow> string \<Rightarrow> string \<Rightarrow> bytes \<Rightarrow>
   int list \<Rightarrow> tracker \<Rightarrow> bool option \<times> action list \<times> tracker" where
  "send_chunks b64encode env ip file_id unread [] acks = (None, [], acks)"
| "send_chunks b64encode env ip file_id unread (seq # seqs) acks =
     (let chunk_data = take (nat CHUNK_SIZE) unread in
      if chunk_data = [] then (None, [], acks)
      else
        let chunk_b64 = b64encode chunk_data;
            chunk_message = ''CHUNK '' @ file_id @ '' '' @ py_str seq @ '' '' @ chunk_b64;
            chunk_ack_id = file_id @ ''-'' @ py_str seq
        in case chunk_attempts (env (Chunk_phase seq)) ip chunk_ack_id chunk_message
                  [1..<MAX_RETRIES + 1] acks of
             (Return r, tr, acks') \<Rightarrow> (Some r, tr, acks')
           | (_, tr, acks') \<Rightarrow>
               (case send_chunks b64encode env ip file_id (drop (nat CHUNK_SIZE) unread) seqs acks' of
                  (r, tr', acks'') \<Rightarrow> (r, tr @ tr', acks'')))"

definition basename :: "string \<Rightarrow> string" where
  "basename path = rev (takeWhile (\<lambda>c. c \<noteq> CHR ''/'') (rev path))"

text \<open>
  \<^verbatim>\<open>transfer_file\<close>, run in its own thread. Every exception is caught and gives
  \<open>False\<close>; \<open>None\<close> is the result of a run that reaches the end of the function body.
\<close>

definition transfer_file ::
  "(bytes \<Rightarrow> string) \<Rightarrow> (bytes \<Rightarrow> string) \<Rightarrow> (phase \<Rightarrow> nat \<Rightarrow> attempt) \<Rightarrow> int \<Rightarrow> int \<Rightarrow>
   state \<Rightarrow> string \<Rightarrow> string \<Rightarrow> string \<Rightarrow> bool option \<times> action list \<times> tracker" where
  "transfer_file b64encode sha256_hex env seconds rnd st target_device ip file_path =
     (case files (disk st) file_path of
        None \<Rightarrow> (Some False, [], ack_received st)
      | Some content \<Rightarrow>
          let file_size = int (length content);
              file_name = basename file_path;
              file_id = generate_message_id (device_name st) seconds rnd;
              file_message = ''FILE '' @ file_id @ '' '' @ file_name @ '' '' @ py_str file_size
          in case file_attempts (env File_phase) ip file_id file_message [1..<MAX_RETRIES + 1]
                    (ack_received st) of
               (Return r, tr1, acks1) \<Rightarrow> (Some r, GenerateId file_id # tr1, acks1)
             | (_, tr1, acks1) \<Rightarrow>
                 let total_chunks = (file_size + CHUNK_SIZE - 1) div CHUNK_SIZE in
                 if refused (disk st) Open_rb file_path then
                   (Some False, GenerateId file_id # tr1, acks1)
                 else
                   (case send_chunks b64encode env ip file_id content
                           (map int [0..<nat total_chunks]) acks1 of
                      (Some r, tr2, acks2) \<Rightarrow> (Some r, GenerateId file_id # tr1 @ tr2, acks2)
                    | (None, tr2, acks2) \<Rightarrow>
                        (case calculate_file_hash sha256_hex (disk st) file_path of
                           Inl e \<Rightarrow> (Some False, GenerateId file_id # tr1 @ tr2, acks2)
                         | Inr file_hash \<Rightarrow>
                             let end_message = ''END '' @ file_id @ '' '' @ file_hash in
                             (case end_attempts (env End_phase) ip file_id end_message
                                     [1..<MAX_RETRIES + 1] acks2 of
                                (Return r, tr3, acks3) \<Rightarrow>
                                  (Some r, GenerateId file_id # tr1 @ tr2 @ tr3, acks3)
                              | (_, tr3, acks3) \<Rightarrow>
                                  (None, GenerateId file_id # tr1 @ tr2 @ tr3, acks3)))))"

text \<open>
  \<^verbatim>\<open>send_file_to_device\<close>: the result, and the arguments of the transfer thread it
  starts, if it starts one.
\<close>

definition send_file_to_device ::
  "state \<Rightarrow> string \<Rightarrow> string \<Rightarrow> bool \<times> (string \<times> string \<times> string) option" where
  "send_file_to_device st target_device file_path =
     (if files (disk st) file_path = None then (False, None)
      else case map_of (known_devices st) target_device of
             None \<Rightarrow> (False, None)
           | Some (ip, _, _) \<Rightarrow> (True, Some (target_device, ip, file_path)))"

text \<open>
  Words for the statements about retry loops. An attempt has \<open>no_record\<close> for an id
  when none of the records written while the sender polls is for that id. The actions
  of one attempt that gets no answer are the send and, if the send succeeded, the wait
  that times out; \<open>unanswered_run\<close> is the run of \<^verbatim>\<open>MAX_RETRIES\<close> such attempts with the
  pause after each but the last.
\<close>

fun is_send :: "action \<Rightarrow> bool" where
  "is_send (SendTo _ _ _ _) = True"
| "is_send _ = False"

definition no_record :: "attempt \<Rightarrow> string \<Rightarrow> bool" where
  "no_record e ack_id \<longleftrightarrow> (\<forall>written\<in>set (polls e). ack_id \<notin> fst ` set written)"

definition unanswered :: "attempt \<Rightarrow> string \<Rightarrow> string \<Rightarrow> string \<Rightarrow> action list" where
  "unanswered e ip message ack_id =
     SendTo ip UDP_PORT message (send_ok e) # (if send_ok e then [WaitForAck ack_id None] else [])"

definition unanswered_run :: "(nat \<Rightarrow> attempt) \<Rightarrow> string \<Rightarrow> string \<Rightarrow> string \<Rightarrow> action list" where
  "unanswered_run env ip message ack_id =
     concat (map (\<lambda>n. unanswered (env n) ip message ack_id @ backoff n) [1..<MAX_RETRIES + 1])"

section \<open>Sample states\<close>

text \<open>The globals as the module initialises them, for a device name and a disk.\<close>

definition initial_state :: "string \<Rightarrow> filesystem \<Rightarrow> state" where
  "initial_state name fs =
     \<lparr>device_name = name, known_devices = [], received_ids = {}, ack_received = Map.empty,
      pending_files = Map.empty, file_chunks = Map.empty, disk = fs, sent = [], shown = []\<rparr>"

definition empty_disk :: filesystem where
  "empty_disk = \<lparr>files = Map.empty, refused = (\<lambda>_ _. False)\<rparr>"

text \<open>A disk on which no file can be opened for writing, and one that holds a file.\<close>

definition readonly_disk :: filesystem where
  "readonly_disk = \<lparr>files = Map.empty, refused = (\<lambda>operation _. operation = Open_wb)\<rparr>"

definition disk_with_report :: filesystem where
  "disk_with_report = \<lparr>files = [''/tmp/r.txt'' \<mapsto> [65, 66]], refused = (\<lambda>_ _. False)\<rparr>"

text \<open>
  Stand-ins for the library functions in the examples: they agree with SHA-256 and
  with base64 on the byte strings \<^verbatim>\<open>A\<close>, \<^verbatim>\<open>B\<close> and \<^verbatim>\<open>AB\<close>, the only ones the examples use.
\<close>

definition sample_sha256_hex :: "bytes \<Rightarrow> string" where
  "sample_sha256_hex data =
     (if data = [65] then ''559aead08264d5795d3909718cdd05abd49572e84fe55590eef31a88a08fdffd''
      else if data = [66] then ''df7e70e5021544f4834bbee64a9e3789febc4be81470df629cad6ddb03320a5c''
      else if data = [65, 66] then ''38164fbd17603d73f696b8b4d72664d735bb6a7c88577687fd2ae33fd6964153''
      else ''e3b0c44298fc1c149afbf4c8996fb92427ae41e4649b934ca495991b7852b855'')"

definition sample_b64decode :: "string \<Rightarrow> bytes option" where
  "sample_b64decode s =
     (if s = ''QQ=='' then Some [65] else if s = ''Qg=='' then Some [66]
      else if s = ''QUI='' then Some [65, 66] else None)"

text \<open>
  A receiver in the middle of a transfer: file \<^verbatim>\<open>f1\<close> was announced as \<^verbatim>\<open>a.txt\<close> with
  500 bytes (two chunks), and only chunk 0, the byte \<^verbatim>\<open>A\<close>, has arrived.
\<close>

definition receiving_state :: "filesystem \<Rightarrow> state" where
  "receiving_state fs =
     (initial_state ''B'' fs)
       \<lparr>pending_files := [''f1'' \<mapsto> (''a.txt'', 500, 1, ''Dispositivo desconhecido'')],
        file_chunks := [''f1'' \<mapsto> [(0, [65])]]\<rparr>"

text \<open>An attempt during which the send succeeds and nothing is recorded.\<close>

definition silent :: attempt where
  "silent = \<lparr>send_ok = True, early = [], polls = [[], []], late = []\<rparr>"

text \<open>
  A receiver to which file \<^verbatim>\<open>f2\<close> was announced as \<^verbatim>\<open>b.txt\<close> with 2 bytes and that has no
  chunk yet, and a sender that knows the device \<^verbatim>\<open>B\<close>.
\<close>

definition announced_state :: "filesystem \<Rightarrow> state" where
  "announced_state fs =
     (initial_state ''B'' fs)
       \<lparr>pending_files := [''f2'' \<mapsto> (''b.txt'', 2, 0, ''Dispositivo desconhecido'')],
        file_chunks := [''f2'' \<mapsto> []]\<rparr>"

definition sender_state :: state where
  "sender_state = (initial_state ''A'' disk_with_report)
     \<lparr>known_devices := [(''B'', (''10.0.0.2'', 5000, 0))]\<rparr>"

text \<open>
  Attempts with an answer: an ACK for \<^verbatim>\<open>m1\<close> seen at the first poll; a NACK at the
  second poll of attempt \<open>k\<close> and silence otherwise; a NACK in attempt 1 and an ACK in
  attempt 2.
\<close>

definition acked_at_first_poll :: attempt where
  "acked_at_first_poll = \<lparr>send_ok = True, early = [], polls = [[(''m1'', True)]], late = []\<rparr>"

definition nack_at :: "nat \<Rightarrow> string \<Rightarrow> nat \<Rightarrow> attempt" where
  "nack_at k ack_id n =
     (if n = k then \<lparr>send_ok = True, early = [], polls = [[], [(ack_id, False)]], late = []\<rparr> else silent)"

definition nack_then_ack :: "string \<Rightarrow> nat \<Rightarrow> attempt" where
  "nack_then_ack ack_id n =
     (if n = 1 then \<lparr>send_ok = True, early = [], polls = [[(ack_id, False)]], late = []\<rparr>
      else if n = 2 then \<lparr>send_ok = True, early = [], polls = [[], [(ack_id, True)]], late = []\<rparr>
      else silent)"

section \<open>Properties of the message handler\<close>

text \<open>
  C7. A CHUNK message whose file id has no pending transfer is dropped: the handler
  returns the state it was given, so no chunk is stored, nothing else changes and
  nothing (neither an ACK nor a NACK) is sent. This holds whatever the sequence field
  and the payload are.
\<close>

theorem chunk_unknown_file_dropped:
  assumes "py_split 3 message = ''CHUNK'' # file_id # seq_field # rest"
      and "pending_files st file_id = None"
  shows "handle_message b64decode sha256_hex current_time st message addr = Inr st"
  using assms
  by (simp add: handle_message_def on_chunk_def Let_def split: option.splits)

theorem chunk_unknown_file_dropped_witness:
  "py_split 3 ''CHUNK X 0 QUJD'' = ''CHUNK'' # ''X'' # ''0'' # [''QUJD'']
   \<and> pending_files (initial_state ''A'' empty_disk) ''X'' = None
   \<and> handle_message (\<lambda>_. None) (\<lambda>_. []) 0 (initial_state ''A'' empty_disk)
         ''CHUNK X 0 QUJD'' (''10.0.0.2'', 5000)
       = Inr (initial_state ''A'' empty_disk)"
proof -
  have h1: "py_split 3 ''CHUNK X 0 QUJD'' = ''CHUNK'' # ''X'' # ''0'' # [''QUJD'']"
    by (simp add: numeral_3_eq_3 isspace_def)
  have h2: "pending_files (initial_state ''A'' empty_disk) ''X'' = None"
    by (simp add: initial_state_def)
  from chunk_unknown_file_dropped [OF h1 h2] h1 h2 show ?thesis by blast
qed

text \<open>
  C8. Talking or sending a file to a device name that is not in the registry is
  rejected at once: the result is \<open>False\<close>, \<^verbatim>\<open>talk_to_device\<close> has generated no id and
  sent nothing (its list of actions is empty and the tracker is untouched), and
  \<^verbatim>\<open>send_file_to_device\<close> has started no transfer thread.
\<close>

theorem unknown_target_rejected:
  assumes "map_of (known_devices st) target_device = None"
  shows "talk_to_device env seconds rnd st target_device content = (False, [], ack_received st)
       \<and> send_file_to_device st target_device file_path = (False, None)"
  using assms by (simp add: talk_to_device_def send_file_to_device_def)

theorem unknown_target_rejected_witness:
  "map_of (known_devices (initial_state ''A'' disk_with_report)) ''B'' = None
   \<and> talk_to_device (\<lambda>_. silent) 1700000000 1234 (initial_state ''A'' disk_with_report)
         ''B'' ''oi''
       = (False, [], ack_received (initial_state ''A'' disk_with_report))
   \<and> send_file_to_device (initial_state ''A'' disk_with_report) ''B'' ''/tmp/r.txt''
       = (False, None)"
proof -
  have h: "map_of (known_devices (initial_state ''A'' disk_with_report)) ''B'' = None"
    by (simp add: initial_state_def)
  from unknown_target_rejected [OF h] h show ?thesis by blast
qed

subsection \<open>The END branch\<close>

lemma receiving_pending:
  "pending_files (receiving_state fs) ''f1'' =
     Some (''a.txt'', 500, 1, ''Dispositivo desconhecido'')"
  by (simp add: receiving_state_def initial_state_def)

lemma receiving_chunks: "file_chunks (receiving_state fs) ''f1'' = Some [(0, [65])]"
  by (simp add: receiving_state_def initial_state_def)

lemma receiving_reassembled:
  "write_chunks [(0, [65])] (sort (map fst [(0::int, [65::8 word])])) = Inr [65]"
  by simp

lemma receiving_fs_ok:
  "\<forall>operation. \<not> refused (disk (receiving_state empty_disk)) operation (''/root/'' @ ''a.txt'')"
  by (simp add: receiving_state_def initial_state_def empty_disk_def)



text \<open>
  C9. END never compares the number of stored chunks with the number the declared size
  calls for: whatever the declared size and the count are, the receiver writes the
  chunks it has and decides on the hash alone. If the hash of these bytes is the one
  in the message the file is kept and ACK is sent, otherwise the file is removed and
  the NACK \<^verbatim>\<open>hash_invalido\<close> is sent; in both cases the transfer state is deleted.
\<close>

theorem end_accepts_on_hash_alone:
  assumes parts: "py_split 3 message = ''END'' # file_id # received_hash # rest"
      and pending: "pending_files st file_id = Some (filename, file_size, chunks_received, sender)"
      and chunks: "file_chunks st file_id = Some chunks"
      and reassembled: "write_chunks chunks (sort (map fst chunks)) = Inr data"
      and fs_ok: "\<forall>operation. \<not> refused (disk st) operation (''/root/'' @ filename)"
  shows "\<exists>st'. handle_message b64decode sha256_hex current_time st message addr = Inr st'
           \<and> sent st' = sent st @ [(fst addr, UDP_PORT,
                 if sha256_hex data = received_hash then ''ACK '' @ file_id
                 else ''NACK '' @ file_id @ '' hash_invalido'')]
           \<and> files (disk st') (''/root/'' @ filename) =
                 (if sha256_hex data = received_hash then Some data else None)
           \<and> pending_files st' file_id = None \<and> file_chunks st' file_id = None"
  using assms
  by (simp add: handle_message_def on_end_def end_try_def Let_def open_wb_def write_all_def
      calculate_file_hash_def read_all_def os_remove_def send_message_to_ip_def print_block_def)

text \<open>The example: 500 bytes were announced, one byte has arrived, and an END that carries
  the hash of that one byte is accepted.\<close>

theorem end_accepts_on_hash_alone_witness:
  "py_split 3 ''END f1 559aead08264d5795d3909718cdd05abd49572e84fe55590eef31a88a08fdffd''
     = ''END'' # ''f1'' # ''559aead08264d5795d3909718cdd05abd49572e84fe55590eef31a88a08fdffd'' # []
   \<and> (\<exists>st'. handle_message sample_b64decode sample_sha256_hex 0 (receiving_state empty_disk)
         ''END f1 559aead08264d5795d3909718cdd05abd49572e84fe55590eef31a88a08fdffd''
         (''10.0.0.1'', 40000) = Inr st'
       \<and> sent st' = [(''10.0.0.1'', 5000, ''ACK f1'')]
       \<and> files (disk st') ''/root/a.txt'' = Some [65]
       \<and> pending_files st' ''f1'' = None \<and> file_chunks st' ''f1'' = None)"
proof -
  have s: "py_split 3 ''END f1 559aead08264d5795d3909718cdd05abd49572e84fe55590eef31a88a08fdffd''
     = ''END'' # ''f1'' # ''559aead08264d5795d3909718cdd05abd49572e84fe55590eef31a88a08fdffd'' # []"
    by (simp add: numeral_3_eq_3 isspace_def)
  from end_accepts_on_hash_alone [where sha256_hex = sample_sha256_hex
      and b64decode = sample_b64decode and current_time = 0 and addr = "(''10.0.0.1'', 40000)",
      OF s receiving_pending receiving_chunks receiving_reassembled receiving_fs_ok]
  have "\<exists>st'. handle_message sample_b64decode sample_sha256_hex 0 (receiving_state empty_disk)
         ''END f1 559aead08264d5795d3909718cdd05abd49572e84fe55590eef31a88a08fdffd''
         (''10.0.0.1'', 40000) = Inr st'
       \<and> sent st' = [(''10.0.0.1'', 5000, ''ACK f1'')]
       \<and> files (disk st') ''/root/a.txt'' = Some [65]
       \<and> pending_files st' ''f1'' = None \<and> file_chunks st' ''f1'' = None"
    by (simp add: sample_sha256_hex_def receiving_state_def initial_state_def UDP_PORT_def)
  with s show ?thesis by blast
qed

lemma end_try_raise:
  assumes "end_try sha256_hex st ip file_id received_hash entry = (Some e, st1)"
  shows "sent st1 = sent st \<and> shown st1 = shown st \<and> pending_files st1 = pending_files st
         \<and> file_chunks st1 = file_chunks st"
  using assms
  by (auto simp add: end_try_def Let_def open_wb_def write_all_def send_message_to_ip_def
      print_block_def split: prod.splits sum.splits option.splits if_splits)

text \<open>
  C10. When the \<^verbatim>\<open>try\<close> block of END raises for a pending transfer (the output file
  cannot be opened, read or removed), the receiver sends the NACK
  \<^verbatim>\<open>erro_processamento\<close> and keeps the transfer state: the pending entries and the
  stored chunks are what they were, so the file id is still pending.
\<close>

theorem end_error_keeps_transfer:
  assumes parts: "py_split 3 message = ''END'' # file_id # received_hash # rest"
      and pending: "pending_files st file_id = Some entry"
      and raised: "end_try sha256_hex st (fst addr) file_id received_hash entry = (Some e, st1)"
  shows "\<exists>st'. handle_message b64decode sha256_hex current_time st message addr = Inr st'
           \<and> sent st' = sent st @
                 [(fst addr, UDP_PORT, ''NACK '' @ file_id @ '' erro_processamento'')]
           \<and> pending_files st' = pending_files st \<and> file_chunks st' = file_chunks st
           \<and> pending_files st' file_id = Some entry"
  using parts pending raised end_try_raise [OF raised]
  by (simp add: handle_message_def on_end_def Let_def send_message_to_ip_def)

theorem end_error_keeps_transfer_witness:
  "py_split 3 ''END f1 00'' = ''END'' # ''f1'' # ''00'' # []
   \<and> end_try sample_sha256_hex (receiving_state readonly_disk) ''10.0.0.1'' ''f1'' ''00''
         (''a.txt'', 500, 1, ''Dispositivo desconhecido'')
       = (Some OSError, receiving_state readonly_disk)
   \<and> (\<exists>st'. handle_message sample_b64decode sample_sha256_hex 0 (receiving_state readonly_disk)
         ''END f1 00'' (''10.0.0.1'', 40000) = Inr st'
       \<and> sent st' = [(''10.0.0.1'', 5000, ''NACK f1 erro_processamento'')]
       \<and> pending_files st' ''f1'' = Some (''a.txt'', 500, 1, ''Dispositivo desconhecido'')
       \<and> file_chunks st' ''f1'' = Some [(0, [65])])"
proof -
  have s: "py_split 3 ''END f1 00'' = ''END'' # ''f1'' # ''00'' # []"
    by (simp add: numeral_3_eq_3 isspace_def)
  have r: "end_try sample_sha256_hex (receiving_state readonly_disk)
             (fst (''10.0.0.1'', 40000::int)) ''f1'' ''00''
             (''a.txt'', 500, 1, ''Dispositivo desconhecido'')
           = (Some OSError, receiving_state readonly_disk)"
    by (simp add: end_try_def open_wb_def receiving_state_def initial_state_def readonly_disk_def)
  from end_error_keeps_transfer [where b64decode = sample_b64decode and current_time = 0,
      OF s receiving_pending r]
  have "\<exists>st'. handle_message sample_b64decode sample_sha256_hex 0 (receiving_state readonly_disk)
         ''END f1 00'' (''10.0.0.1'', 40000) = Inr st'
       \<and> sent st' = [(''10.0.0.1'', 5000, ''NACK f1 erro_processamento'')]
       \<and> pending_files st' ''f1'' = Some (''a.txt'', 500, 1, ''Dispositivo desconhecido'')
       \<and> file_chunks st' ''f1'' = Some [(0, [65])]"
    by (auto simp add: receiving_state_def initial_state_def UDP_PORT_def)
  with s r show ?thesis by simp
qed

subsection \<open>The TALK branch\<close>

text \<open>
  C6. A TALK whose id is already in \<open>received_ids\<close> changes nothing but the list of
  sent datagrams, to which one ACK for the id is added: the id set, the registry, the
  transfer state and the console are as before. Hence, for an id not seen before, two
  TALK messages with that id, one after the other, give two ACKs and one displayed
  message (the content of the first).
\<close>

theorem talk_duplicate_reacked:
  assumes first: "py_split 3 message = ''TALK'' # message_id # content # rest"
      and again: "py_split 3 message' = ''TALK'' # message_id # content' # rest'"
  shows "(message_id \<in> received_ids st \<longrightarrow>
            handle_message b64decode sha256_hex current_time st message addr =
              Inr (st\<lparr>sent := sent st @ [(fst addr, UDP_PORT, ''ACK '' @ message_id)]\<rparr>))
       \<and> (message_id \<notin> received_ids st \<longrightarrow>
            (\<exists>st1 st2.
               handle_message b64decode sha256_hex current_time st message addr = Inr st1
             \<and> handle_message b64decode sha256_hex current_time' st1 message' addr' = Inr st2
             \<and> st2 = st1\<lparr>sent := sent st1 @ [(fst addr', UDP_PORT, ''ACK '' @ message_id)]\<rparr>
             \<and> sent st2 = sent st @ [(fst addr, UDP_PORT, ''ACK '' @ message_id),
                                      (fst addr', UDP_PORT, ''ACK '' @ message_id)]
             \<and> shown st2 = shown st @
                   [NovaMensagem (identify_sender (known_devices st) (fst addr)) content]))"
  using assms
  by (simp add: handle_message_def on_talk_def Let_def send_message_to_ip_def print_block_def)

theorem talk_duplicate_reacked_witness:
  "py_split 3 ''TALK A-17-4242 oi'' = ''TALK'' # ''A-17-4242'' # ''oi'' # []
   \<and> ''A-17-4242'' \<notin> received_ids (initial_state ''B'' empty_disk)
   \<and> (\<exists>st1 st2.
         handle_message sample_b64decode sample_sha256_hex 0 (initial_state ''B'' empty_disk)
           ''TALK A-17-4242 oi'' (''10.0.0.1'', 40000) = Inr st1
       \<and> handle_message sample_b64decode sample_sha256_hex 1 st1
           ''TALK A-17-4242 oi'' (''10.0.0.1'', 40000) = Inr st2
       \<and> ''A-17-4242'' \<in> received_ids st1
       \<and> sent st2 = [(''10.0.0.1'', 5000, ''ACK A-17-4242''), (''10.0.0.1'', 5000, ''ACK A-17-4242'')]
       \<and> shown st2 = [NovaMensagem ''Dispositivo desconhecido'' ''oi''])"
proof -
  have s: "py_split 3 ''TALK A-17-4242 oi'' = ''TALK'' # ''A-17-4242'' # ''oi'' # []"
    by (simp add: numeral_3_eq_3 isspace_def)
  have n: "''A-17-4242'' \<notin> received_ids (initial_state ''B'' empty_disk)"
    by (simp add: initial_state_def)
  from talk_duplicate_reacked [where st = "initial_state ''B'' empty_disk"
      and b64decode = sample_b64decode and sha256_hex = sample_sha256_hex
      and current_time = 0 and current_time' = 1
      and addr = "(''10.0.0.1'', 40000)" and addr' = "(''10.0.0.1'', 40000)", OF s s] n
  obtain st1 st2 where
    a: "handle_message sample_b64decode sample_sha256_hex 0 (initial_state ''B'' empty_disk)
           ''TALK A-17-4242 oi'' (''10.0.0.1'', 40000) = Inr st1"
    and b: "handle_message sample_b64decode sample_sha256_hex 1 st1
           ''TALK A-17-4242 oi'' (''10.0.0.1'', 40000) = Inr st2"
    and c: "sent st2 = sent (initial_state ''B'' empty_disk) @
              [(fst (''10.0.0.1'', 40000::int), UDP_PORT, ''ACK '' @ ''A-17-4242''),
               (fst (''10.0.0.1'', 40000::int), UDP_PORT, ''ACK '' @ ''A-17-4242'')]"
    and d: "shown st2 = shown (initial_state ''B'' empty_disk) @
              [NovaMensagem (identify_sender (known_devices (initial_state ''B'' empty_disk))
                 (fst (''10.0.0.1'', 40000::int))) ''oi'']"
    by blast
  from a s have e: "''A-17-4242'' \<in> received_ids st1"
    by (auto simp add: handle_message_def on_talk_def Let_def send_message_to_ip_def
        print_block_def initial_state_def)
  from c have c': "sent st2 = [(''10.0.0.1'', 5000, ''ACK A-17-4242''), (''10.0.0.1'', 5000, ''ACK A-17-4242'')]"
    by (simp add: initial_state_def UDP_PORT_def)
  from d have d': "shown st2 = [NovaMensagem ''Dispositivo desconhecido'' ''oi'']"
    by (simp add: initial_state_def)
  from s n a b e c' d' show ?thesis by blast
qed

section \<open>Properties of the outbound operations\<close>

subsection \<open>The delivery tracker\<close>

lemma poll_ack_result:
  "poll_ack ack_id batches acks = (result, acks') \<Longrightarrow> acks ack_id = None \<Longrightarrow> acks' ack_id = result"
proof (induction batches arbitrary: acks)
  case Nil
  then show ?case by auto
next
  case (Cons written later)
  then show ?case
    by (auto simp add: Let_def split: option.splits)
qed

text \<open>
  C2, as the code has it. \<^verbatim>\<open>wait_for_ack\<close> reads the record and leaves it in the
  dictionary: when it returns the outcome of an ACK or a NACK for an id, the tracker
  still holds that outcome for the id.
\<close>

theorem wait_for_ack_leaves_record:
  assumes "wait_for_ack ack_id e acks = (Some positive, acks')"
  shows "acks' ack_id = Some positive"
proof -
  obtain result polled where
    p: "poll_ack ack_id (polls e) ((record_all (early e) acks)(ack_id := None)) = (result, polled)"
    by (cases "poll_ack ack_id (polls e) ((record_all (early e) acks)(ack_id := None))")
  from poll_ack_result [OF p] have r: "polled ack_id = result" by simp
  from assms p have "result = Some positive \<and> acks' = polled"
    by (cases result) (simp_all add: wait_for_ack_def)
  with r show ?thesis by simp
qed

theorem wait_for_ack_leaves_record_witness:
  "wait_for_ack ''m1'' acked_at_first_poll [''m1'' \<mapsto> False, ''m0'' \<mapsto> True]
     = (Some True, [''m1'' \<mapsto> True, ''m0'' \<mapsto> True])
   \<and> [''m1'' \<mapsto> True, ''m0'' \<mapsto> True] ''m1'' = Some True"
proof -
  have a: "wait_for_ack ''m1'' acked_at_first_poll [''m1'' \<mapsto> False, ''m0'' \<mapsto> True]
             = (Some True, [''m1'' \<mapsto> True, ''m0'' \<mapsto> True])"
    by (auto simp add: wait_for_ack_def acked_at_first_poll_def fun_eq_iff)
  from wait_for_ack_leaves_record [OF a] a show ?thesis by blast
qed

text \<open>An ACK for \<^verbatim>\<open>m1\<close> found at the first poll: the wait returns it and the tracker
  still holds it.\<close>

theorem wait_for_ack_record_not_removed:
  "fst (wait_for_ack ''m1'' acked_at_first_poll Map.empty) = Some True
   \<and> snd (wait_for_ack ''m1'' acked_at_first_poll Map.empty) ''m1'' = Some True"
  by (simp add: wait_for_ack_def acked_at_first_poll_def)

subsection \<open>Retry loops without an answer\<close>

lemma record_all_other:
  "ack_id \<notin> fst ` set written \<Longrightarrow> record_all written acks ack_id = acks ack_id"
  by (induction written arbitrary: acks) auto

lemma poll_ack_quiet:
  "\<forall>written\<in>set batches. ack_id \<notin> fst ` set written \<Longrightarrow> acks ack_id = None \<Longrightarrow>
   fst (poll_ack ack_id batches acks) = None"
proof (induction batches arbitrary: acks)
  case Nil
  then show ?case by simp
next
  case (Cons written later)
  then have "record_all written acks ack_id = None"
    by (simp add: record_all_other)
  with Cons show ?case by (simp add: Let_def)
qed

lemma send_and_wait_quiet:
  assumes "no_record e ack_id"
  shows "\<exists>acks'. send_and_wait e ip message ack_id acks =
           (None, unanswered e ip message ack_id, acks')"
proof (cases "send_ok e")
  case True
  from assms
  have "fst (poll_ack ack_id (polls e) ((record_all (early e) acks)(ack_id := None))) = None"
    by (simp add: poll_ack_quiet no_record_def)
  then have "fst (wait_for_ack ack_id e acks) = None"
    by (auto simp add: wait_for_ack_def split: prod.splits option.splits)
  then show ?thesis using True
    by (auto simp add: send_and_wait_def unanswered_def split: prod.splits)
next
  case False
  then show ?thesis by (simp add: send_and_wait_def unanswered_def)
qed

lemma talk_quiet:
  assumes "\<forall>n\<in>set ns. no_record (env n) ack_id"
  shows "\<exists>acks'. talk_attempts env ip ack_id message ns acks =
     (Exhausted, concat (map (\<lambda>n. unanswered (env n) ip message ack_id @ backoff n) ns), acks')"
  using assms
proof (induction ns arbitrary: acks)
  case Nil
  then show ?case by simp
next
  case (Cons n ns)
  then have "no_record (env n) ack_id" by simp
  from send_and_wait_quiet [OF this] obtain acks1 where
    s: "send_and_wait (env n) ip message ack_id acks = (None, unanswered (env n) ip message ack_id, acks1)"
    by blast
  from Cons have "\<forall>n\<in>set ns. no_record (env n) ack_id" by simp
  from Cons.IH [OF this, of acks1] obtain acks2 where
    "talk_attempts env ip ack_id message ns acks1 =
     (Exhausted, concat (map (\<lambda>n. unanswered (env n) ip message ack_id @ backoff n) ns), acks2)"
    by blast
  with s show ?case by simp
qed

lemma file_quiet:
  assumes "\<forall>n\<in>set (ns @ [m]). no_record (env n) ack_id"
      and "\<forall>n\<in>set ns. n < MAX_RETRIES" and "MAX_RETRIES \<le> m"
  shows "\<exists>acks'. file_attempts env ip ack_id message (ns @ [m]) acks =
     (Return False,
      concat (map (\<lambda>n. unanswered (env n) ip message ack_id @ backoff n) (ns @ [m])), acks')"
  using assms(1,2)
proof (induction ns arbitrary: acks)
  case Nil
  then have "no_record (env m) ack_id" by simp
  from send_and_wait_quiet [OF this] obtain acks1 where
    "send_and_wait (env m) ip message ack_id acks = (None, unanswered (env m) ip message ack_id, acks1)"
    by blast
  with assms(3) show ?case by (simp add: backoff_def)
next
  case (Cons n ns)
  then have "no_record (env n) ack_id" by simp
  from send_and_wait_quiet [OF this] obtain acks1 where
    s: "send_and_wait (env n) ip message ack_id acks = (None, unanswered (env n) ip message ack_id, acks1)"
    by blast
  from Cons.prems have lt: "n < MAX_RETRIES" and rest: "\<forall>n\<in>set ns. n < MAX_RETRIES"
    and q: "\<forall>n\<in>set (ns @ [m]). no_record (env n) ack_id" by simp_all
  from Cons.IH [OF q rest, of acks1] obtain acks2 where
    "file_attempts env ip ack_id message (ns @ [m]) acks1 =
     (Return False,
      concat (map (\<lambda>n. unanswered (env n) ip message ack_id @ backoff n) (ns @ [m])), acks2)"
    by blast
  with s lt show ?case by (simp add: backoff_def)
qed

lemma chunk_quiet:
  assumes "\<forall>n\<in>set (ns @ [m]). no_record (env n) ack_id"
      and "\<forall>n\<in>set ns. n < MAX_RETRIES" and "MAX_RETRIES \<le> m"
  shows "\<exists>acks'. chunk_attempts env ip ack_id message (ns @ [m]) acks =
     (Return False,
      concat (map (\<lambda>n. unanswered (env n) ip message ack_id @ backoff n) (ns @ [m])), acks')"
  using assms(1,2)
proof (induction ns arbitrary: acks)
  case Nil
  then have "no_record (env m) ack_id" by simp
  from send_and_wait_quiet [OF this] obtain acks1 where
    "send_and_wait (env m) ip message ack_id acks = (None, unanswered (env m) ip message ack_id, acks1)"
    by blast
  with assms(3) show ?case by (simp add: backoff_def)
next
  case (Cons n ns)
  then have "no_record (env n) ack_id" by simp
  from send_and_wait_quiet [OF this] obtain acks1 where
    s: "send_and_wait (env n) ip message ack_id acks = (None, unanswered (env n) ip message ack_id, acks1)"
    by blast
  from Cons.prems have lt: "n < MAX_RETRIES" and rest: "\<forall>n\<in>set ns. n < MAX_RETRIES"
    and q: "\<forall>n\<in>set (ns @ [m]). no_record (env n) ack_id" by simp_all
  from Cons.IH [OF q rest, of acks1] obtain acks2 where
    "chunk_attempts env ip ack_id message (ns @ [m]) acks1 =
     (Return False,
      concat (map (\<lambda>n. unanswered (env n) ip message ack_id @ backoff n) (ns @ [m])), acks2)"
    by blast
  with s lt show ?case by (simp add: backoff_def)
qed

lemma end_quiet:
  assumes "\<forall>n\<in>set (ns @ [m]). no_record (env n) ack_id"
      and "\<forall>n\<in>set ns. n < MAX_RETRIES" and "MAX_RETRIES \<le> m"
  shows "\<exists>acks'. end_attempts env ip ack_id message (ns @ [m]) acks =
     (Return False,
      concat (map (\<lambda>n. unanswered (env n) ip message ack_id @ backoff n) (ns @ [m])), acks')"
  using assms(1,2)
proof (induction ns arbitrary: acks)
  case Nil
  then have "no_record (env m) ack_id" by simp
  from send_and_wait_quiet [OF this] obtain acks1 where
    "send_and_wait (env m) ip message ack_id acks = (None, unanswered (env m) ip message ack_id, acks1)"
    by blast
  with assms(3) show ?case by (simp add: backoff_def)
next
  case (Cons n ns)
  then have "no_record (env n) ack_id" by simp
  from send_and_wait_quiet [OF this] obtain acks1 where
    s: "send_and_wait (env n) ip message ack_id acks = (None, unanswered (env n) ip message ack_id, acks1)"
    by blast
  from Cons.prems have lt: "n < MAX_RETRIES" and rest: "\<forall>n\<in>set ns. n < MAX_RETRIES"
    and q: "\<forall>n\<in>set (ns @ [m]). no_record (env n) ack_id" by simp_all
  from Cons.IH [OF q rest, of acks1] obtain acks2 where
    "end_attempts env ip ack_id message (ns @ [m]) acks1 =
     (Return False,
      concat (map (\<lambda>n. unanswered (env n) ip message ack_id @ backoff n) (ns @ [m])), acks2)"
    by blast
  with s lt show ?case by (simp add: backoff_def)
qed

lemma attempts_range: "[1..<MAX_RETRIES + 1] = [1..<MAX_RETRIES] @ [MAX_RETRIES]"
proof -
  have "1 \<le> MAX_RETRIES" by (simp add: MAX_RETRIES_def)
  then have "[1..<Suc MAX_RETRIES] = [1..<MAX_RETRIES] @ [MAX_RETRIES]"
    by (rule upt_Suc_append)
  then show ?thesis by (simp only: Suc_eq_plus1)
qed

lemma attempts_list: "[1..<MAX_RETRIES + 1] = [1, 2, 3, 4, 5, 6, 7, 8, 9, 10]"
  by (simp add: MAX_RETRIES_def upt_rec)

lemma sends_of_run:
  "length (filter is_send (concat (map (\<lambda>n. unanswered (env n) ip message ack_id @ backoff n) ns)))
     = length ns"
  by (induction ns) (simp_all add: unanswered_def backoff_def)

lemma sleeps_of_run:
  "length (filter (\<lambda>a. a = Sleep 1)
     (concat (map (\<lambda>n. unanswered (env n) ip message ack_id @ backoff n) ns)))
     = length (filter (\<lambda>n. n < MAX_RETRIES) ns)"
  by (induction ns) (simp_all add: unanswered_def backoff_def)

text \<open>
  C5. When no record for the acknowledgment id is written while the sender polls, in
  any of the attempts 1 to \<^verbatim>\<open>MAX_RETRIES\<close>, then \<^verbatim>\<open>talk_to_device\<close> returns \<open>False\<close> and
  the FILE, CHUNK and END loops leave \<^verbatim>\<open>transfer_file\<close> with \<open>False\<close>, after exactly
  the actions of \<open>unanswered_run\<close>: \<^verbatim>\<open>MAX_RETRIES\<close> sends, each followed by a sleep of one
  second except the last, which makes \<^verbatim>\<open>MAX_RETRIES - 1\<close> sleeps.
\<close>

theorem retry_bound:
  assumes quiet: "\<forall>n\<in>set [1..<MAX_RETRIES + 1]. no_record (env n) ack_id"
  shows "(map_of (known_devices st) target_device = Some (ip, port, seen)
          \<and> ack_id = generate_message_id (device_name st) seconds rnd
          \<and> message = ''TALK '' @ ack_id @ '' '' @ content
          \<longrightarrow> (\<exists>acks'. talk_to_device env seconds rnd st target_device content =
                 (False, GenerateId ack_id # unanswered_run env ip message ack_id, acks')))
       \<and> (\<exists>acks'. file_attempts env ip ack_id message [1..<MAX_RETRIES + 1] acks =
                 (Return False, unanswered_run env ip message ack_id, acks'))
       \<and> (\<exists>acks'. chunk_attempts env ip ack_id message [1..<MAX_RETRIES + 1] acks =
                 (Return False, unanswered_run env ip message ack_id, acks'))
       \<and> (\<exists>acks'. end_attempts env ip ack_id message [1..<MAX_RETRIES + 1] acks =
                 (Return False, unanswered_run env ip message ack_id, acks'))
       \<and> length (filter is_send (unanswered_run env ip message ack_id)) = MAX_RETRIES
       \<and> length (filter (\<lambda>a. a = Sleep 1) (unanswered_run env ip message ack_id)) = MAX_RETRIES - 1"
proof -
  have below: "\<forall>n\<in>set [1..<MAX_RETRIES]. n < MAX_RETRIES" by simp
  from quiet have quiet': "\<forall>n\<in>set ([1..<MAX_RETRIES] @ [MAX_RETRIES]). no_record (env n) ack_id"
    by (simp only: attempts_range)
  have c_talk: "map_of (known_devices st) target_device = Some (ip, port, seen)
          \<and> ack_id = generate_message_id (device_name st) seconds rnd
          \<and> message = ''TALK '' @ ack_id @ '' '' @ content
          \<longrightarrow> (\<exists>acks'. talk_to_device env seconds rnd st target_device content =
                 (False, GenerateId ack_id # unanswered_run env ip message ack_id, acks'))"
  proof
    assume a: "map_of (known_devices st) target_device = Some (ip, port, seen)
          \<and> ack_id = generate_message_id (device_name st) seconds rnd
          \<and> message = ''TALK '' @ ack_id @ '' '' @ content"
    from talk_quiet [OF quiet, of ip message "ack_received st"] obtain acks1 where
      "talk_attempts env ip ack_id message [1..<MAX_RETRIES + 1] (ack_received st) =
         (Exhausted, unanswered_run env ip message ack_id, acks1)"
      unfolding unanswered_run_def by blast
    with a show "\<exists>acks'. talk_to_device env seconds rnd st target_device content =
                 (False, GenerateId ack_id # unanswered_run env ip message ack_id, acks')"
      by (simp add: talk_to_device_def Let_def)
  qed
  have c_file: "\<exists>acks'. file_attempts env ip ack_id message [1..<MAX_RETRIES + 1] acks =
                 (Return False, unanswered_run env ip message ack_id, acks')"
    unfolding unanswered_run_def attempts_range
    by (rule file_quiet [OF quiet' below]) simp
  have c_chunk: "\<exists>acks'. chunk_attempts env ip ack_id message [1..<MAX_RETRIES + 1] acks =
                 (Return False, unanswered_run env ip message ack_id, acks')"
    unfolding unanswered_run_def attempts_range
    by (rule chunk_quiet [OF quiet' below]) simp
  have c_end: "\<exists>acks'. end_attempts env ip ack_id message [1..<MAX_RETRIES + 1] acks =
                 (Return False, unanswered_run env ip message ack_id, acks')"
    unfolding unanswered_run_def attempts_range
    by (rule end_quiet [OF quiet' below]) simp
  have sends: "length (filter is_send (unanswered_run env ip message ack_id)) = MAX_RETRIES"
    unfolding unanswered_run_def by (simp only: sends_of_run) simp
  have sleeps: "length (filter (\<lambda>a. a = Sleep 1) (unanswered_run env ip message ack_id))
                  = MAX_RETRIES - 1"
    unfolding unanswered_run_def by (simp only: sleeps_of_run attempts_list) (simp add: MAX_RETRIES_def)
  from c_talk c_file c_chunk c_end sends sleeps show ?thesis by blast
qed

theorem retry_bound_witness:
  "no_record silent ''A-1700000000-1234''
   \<and> map_of (known_devices sender_state) ''B'' = Some (''10.0.0.2'', 5000, 0)
   \<and> ''A-1700000000-1234'' = generate_message_id (device_name sender_state) 1700000000 1234
   \<and> (\<exists>acks'. talk_to_device (\<lambda>_. silent) 1700000000 1234 sender_state ''B'' ''oi'' =
         (False,
          GenerateId ''A-1700000000-1234'' #
            unanswered_run (\<lambda>_. silent) ''10.0.0.2'' ''TALK A-1700000000-1234 oi''
              ''A-1700000000-1234'',
          acks'))
   \<and> (\<exists>acks'. end_attempts (\<lambda>_. silent) ''10.0.0.2'' ''A-1700000000-1234''
                 ''TALK A-1700000000-1234 oi'' [1..<MAX_RETRIES + 1] Map.empty =
         (Return False,
          unanswered_run (\<lambda>_. silent) ''10.0.0.2'' ''TALK A-1700000000-1234 oi''
            ''A-1700000000-1234'',
          acks'))
   \<and> length (filter is_send
        (unanswered_run (\<lambda>_. silent) ''10.0.0.2'' ''TALK A-1700000000-1234 oi''
           ''A-1700000000-1234'')) = 10
   \<and> take 4 (unanswered_run (\<lambda>_. silent) ''10.0.0.2'' ''TALK A-1700000000-1234 oi''
        ''A-1700000000-1234'')
       = [SendTo ''10.0.0.2'' 5000 ''TALK A-1700000000-1234 oi'' True,
          WaitForAck ''A-1700000000-1234'' None, Sleep 1,
          SendTo ''10.0.0.2'' 5000 ''TALK A-1700000000-1234 oi'' True]"
proof -
  have n: "no_record silent ''A-1700000000-1234''"
    by (simp add: no_record_def silent_def)
  then have q: "\<forall>n\<in>set [1..<MAX_RETRIES + 1]. no_record ((\<lambda>_. silent) n) ''A-1700000000-1234''"
    by simp
  have d: "map_of (known_devices sender_state) ''B'' = Some (''10.0.0.2'', 5000, 0)"
    by (simp add: sender_state_def initial_state_def)
  have g: "''A-1700000000-1234'' = generate_message_id (device_name sender_state) 1700000000 1234"
    by (simp add: generate_message_id_def sender_state_def initial_state_def py_str_def
        str_nat.simps)
  have m: "''TALK A-1700000000-1234 oi'' = ''TALK '' @ ''A-1700000000-1234'' @ '' '' @ ''oi''"
    by simp
  have t: "take 4 (unanswered_run (\<lambda>_. silent) ''10.0.0.2'' ''TALK A-1700000000-1234 oi''
             ''A-1700000000-1234'')
       = [SendTo ''10.0.0.2'' 5000 ''TALK A-1700000000-1234 oi'' True,
          WaitForAck ''A-1700000000-1234'' None, Sleep 1,
          SendTo ''10.0.0.2'' 5000 ''TALK A-1700000000-1234 oi'' True]"
    unfolding unanswered_run_def attempts_list
    by (simp add: unanswered_def silent_def backoff_def MAX_RETRIES_def UDP_PORT_def)
  note bound = retry_bound [OF q, where st = sender_state and target_device = "''B''"
      and ip = "''10.0.0.2''" and port = 5000 and seen = 0 and seconds = 1700000000
      and rnd = 1234 and message = "''TALK A-1700000000-1234 oi''" and content = "''oi''"
      and acks = Map.empty]
  from bound d g m
  have a: "\<exists>acks'. talk_to_device (\<lambda>_. silent) 1700000000 1234 sender_state ''B'' ''oi'' =
         (False,
          GenerateId ''A-1700000000-1234'' #
            unanswered_run (\<lambda>_. silent) ''10.0.0.2'' ''TALK A-1700000000-1234 oi''
              ''A-1700000000-1234'',
          acks')"
    by blast
  from bound
  have b: "\<exists>acks'. end_attempts (\<lambda>_. silent) ''10.0.0.2'' ''A-1700000000-1234''
                 ''TALK A-1700000000-1234 oi'' [1..<MAX_RETRIES + 1] Map.empty =
         (Return False,
          unanswered_run (\<lambda>_. silent) ''10.0.0.2'' ''TALK A-1700000000-1234 oi''
            ''A-1700000000-1234'',
          acks')"
    by blast
  from bound
  have "length (filter is_send
        (unanswered_run (\<lambda>_. silent) ''10.0.0.2'' ''TALK A-1700000000-1234 oi''
           ''A-1700000000-1234'')) = MAX_RETRIES"
    by blast
  then have c: "length (filter is_send
        (unanswered_run (\<lambda>_. silent) ''10.0.0.2'' ''TALK A-1700000000-1234 oi''
           ''A-1700000000-1234'')) = 10"
    by (simp only: MAX_RETRIES_def)
  from n d g a b c t show ?thesis by blast
qed

subsection \<open>Negative acknowledgments\<close>

lemma send_and_wait_cases:
  assumes "send_and_wait e ip message ack_id acks = (result, tr, acks')"
  shows "(result = None \<and> tr = [SendTo ip UDP_PORT message False])
       \<or> tr = [SendTo ip UDP_PORT message True, WaitForAck ack_id result]"
  using assms by (auto simp add: send_and_wait_def split: if_splits prod.splits)

lemma nack_in_attempt:
  assumes "send_and_wait e ip message ack_id acks = (result, tr, acks')"
      and "tr = pre @ WaitForAck a (Some False) # post"
  shows "result = Some False \<and> post = [] \<and> pre = [SendTo ip UDP_PORT message True] \<and> a = ack_id"
  using send_and_wait_cases [OF assms(1)] assms(2)
  by (auto simp add: Cons_eq_append_conv append_eq_Cons_conv)

lemma nack_later:
  assumes "send_and_wait e ip message ack_id acks = (result, tr, acks')"
      and "result \<noteq> Some False"
      and "tr @ after = pre @ WaitForAck a (Some False) # post"
  shows "\<exists>pre'. after = pre' @ WaitForAck a (Some False) # post"
  using send_and_wait_cases [OF assms(1)] assms(2,3)
  by (auto simp add: Cons_eq_append_conv append_eq_Cons_conv)

lemma one_send_per_attempt:
  assumes "send_and_wait e ip message ack_id acks = (result, tr, acks')"
  shows "length (filter is_send tr) = 1"
  using send_and_wait_cases [OF assms] by auto

lemma talk_nack_last:
  assumes "talk_attempts env ip ack_id message ns acks = (exit, tr, acks')"
      and "tr = pre @ WaitForAck a (Some False) # post"
  shows "post = [] \<and> exit = Return False"
  using assms
proof (induction ns arbitrary: acks exit tr acks' pre)
  case Nil
  then show ?case by simp
next
  case (Cons n ns)
  obtain result tr0 acks1 where s: "send_and_wait (env n) ip message ack_id acks = (result, tr0, acks1)"
    by (metis prod_cases3)
  show ?case
  proof (cases result)
    case None
    obtain exit1 tr1 acks2 where r: "talk_attempts env ip ack_id message ns acks1 = (exit1, tr1, acks2)"
      by (metis prod_cases3)
    from Cons.prems(1) s None r have e: "exit = exit1" and t: "tr = tr0 @ (backoff n @ tr1)"
      by simp_all
    from s None have "result \<noteq> Some False" by simp
    from nack_later [OF s this] t Cons.prems(2)
    obtain pre1 where "backoff n @ tr1 = pre1 @ WaitForAck a (Some False) # post" by metis
    then obtain pre2 where "tr1 = pre2 @ WaitForAck a (Some False) # post"
      by (auto simp add: backoff_def Cons_eq_append_conv split: if_splits)
    from Cons.IH [OF r this] e show ?thesis by simp
  next
    case (Some positive)
    with Cons.prems(1) s have t: "tr = tr0" and e: "exit = Return positive"
      by (cases positive; simp)+
    from nack_in_attempt [OF s] t Cons.prems(2) Some e show ?thesis by auto
  qed
qed

lemma file_nack_last:
  assumes "file_attempts env ip ack_id message ns acks = (exit, tr, acks')"
      and "tr = pre @ WaitForAck a (Some False) # post"
  shows "post = [] \<and> exit = Return False"
  using assms
proof (induction ns arbitrary: acks exit tr acks' pre)
  case Nil
  then show ?case by simp
next
  case (Cons n ns)
  obtain result tr0 acks1 where s: "send_and_wait (env n) ip message ack_id acks = (result, tr0, acks1)"
    by (metis prod_cases3)
  show ?case
  proof (cases result)
    case None
    from s None have nf: "result \<noteq> Some False" by simp
    show ?thesis
    proof (cases "n < MAX_RETRIES")
      case True
      obtain exit1 tr1 acks2 where r: "file_attempts env ip ack_id message ns acks1 = (exit1, tr1, acks2)"
        by (metis prod_cases3)
      from Cons.prems(1) s None r True have e: "exit = exit1" and t: "tr = tr0 @ ([Sleep 1] @ tr1)"
        by simp_all
      from nack_later [OF s nf] t Cons.prems(2)
      obtain pre1 where "[Sleep 1] @ tr1 = pre1 @ WaitForAck a (Some False) # post" by metis
      then obtain pre2 where "tr1 = pre2 @ WaitForAck a (Some False) # post"
        by (auto simp add: Cons_eq_append_conv)
      from Cons.IH [OF r this] e show ?thesis by simp
    next
      case False
      with Cons.prems(1) s None have t: "tr = tr0" by simp
      from nack_in_attempt [OF s] t Cons.prems(2) None show ?thesis by auto
    qed
  next
    case (Some positive)
    with Cons.prems(1) s have t: "tr = tr0" and e: "positive \<or> exit = Return False"
      by (cases positive; simp)+
    from nack_in_attempt [OF s] t Cons.prems(2) Some e show ?thesis by auto
  qed
qed

lemma end_nack_last:
  assumes "end_attempts env ip ack_id message ns acks = (exit, tr, acks')"
      and "tr = pre @ WaitForAck a (Some False) # post"
  shows "post = [] \<and> exit = Return False"
  using assms
proof (induction ns arbitrary: acks exit tr acks' pre)
  case Nil
  then show ?case by simp
next
  case (Cons n ns)
  obtain result tr0 acks1 where s: "send_and_wait (env n) ip message ack_id acks = (result, tr0, acks1)"
    by (metis prod_cases3)
  show ?case
  proof (cases result)
    case None
    from s None have nf: "result \<noteq> Some False" by simp
    show ?thesis
    proof (cases "n < MAX_RETRIES")
      case True
      obtain exit1 tr1 acks2 where r: "end_attempts env ip ack_id message ns acks1 = (exit1, tr1, acks2)"
        by (metis prod_cases3)
      from Cons.prems(1) s None r True have e: "exit = exit1" and t: "tr = tr0 @ ([Sleep 1] @ tr1)"
        by simp_all
      from nack_later [OF s nf] t Cons.prems(2)
      obtain pre1 where "[Sleep 1] @ tr1 = pre1 @ WaitForAck a (Some False) # post" by metis
      then obtain pre2 where "tr1 = pre2 @ WaitForAck a (Some False) # post"
        by (auto simp add: Cons_eq_append_conv)
      from Cons.IH [OF r this] e show ?thesis by simp
    next
      case False
      with Cons.prems(1) s None have t: "tr = tr0" by simp
      from nack_in_attempt [OF s] t Cons.prems(2) None show ?thesis by auto
    qed
  next
    case (Some positive)
    with Cons.prems(1) s have t: "tr = tr0" and e: "exit = Return positive"
      by (cases positive; simp)+
    from nack_in_attempt [OF s] t Cons.prems(2) Some e show ?thesis by auto
  qed
qed

lemma chunk_starts_with_send:
  assumes "chunk_attempts env ip ack_id message (n # ns) acks = (exit, tr, acks')"
  shows "\<exists>ok rest. tr = SendTo ip UDP_PORT message ok # rest"
proof -
  obtain result tr0 acks1 where s: "send_and_wait (env n) ip message ack_id acks = (result, tr0, acks1)"
    by (metis prod_cases3)
  from send_and_wait_cases [OF s] obtain ok rest0 where t0: "tr0 = SendTo ip UDP_PORT message ok # rest0"
    by auto
  obtain exit1 tr1 acks2 where r: "chunk_attempts env ip ack_id message ns acks1 = (exit1, tr1, acks2)"
    by (metis prod_cases3)
  from assms s r have "tr = tr0 \<or> tr = tr0 @ [Sleep 1] @ tr1"
    by (auto split: option.splits bool.splits if_splits)
  with t0 show ?thesis by auto
qed

lemma chunk_nack_retried:
  assumes "ns = [k..<MAX_RETRIES + 1]"
      and "chunk_attempts env ip ack_id message ns acks = (exit, tr, acks')"
      and "tr = pre @ WaitForAck a (Some False) # post"
  shows "(post = [] \<and> exit = Return False \<and> length (filter is_send tr) = MAX_RETRIES + 1 - k)
       \<or> (\<exists>ok post'. post = Sleep 1 # SendTo ip UDP_PORT message ok # post')"
  using assms
proof (induction ns arbitrary: k acks exit tr acks' pre)
  case Nil
  then show ?case by simp
next
  case (Cons n ns)
  from Cons.prems(1) [symmetric] have nk: "n = k" and ns: "ns = [Suc k..<MAX_RETRIES + 1]"
    and kle: "k \<le> MAX_RETRIES"
    by (auto simp add: upt_eq_Cons_conv simp del: upt_Suc)
  obtain result tr0 acks1 where s: "send_and_wait (env n) ip message ack_id acks = (result, tr0, acks1)"
    by (metis prod_cases3)
  obtain exit1 tr1 acks2 where r: "chunk_attempts env ip ack_id message ns acks1 = (exit1, tr1, acks2)"
    by (metis prod_cases3)
  note one = one_send_per_attempt [OF s]
  show ?case
  proof (cases "result = Some True")
    case True
    with Cons.prems(2) s have "tr = tr0" by simp
    from nack_in_attempt [OF s] this Cons.prems(3) True show ?thesis by auto
  next
    case notack: False
    show ?thesis
    proof (cases "n < MAX_RETRIES")
      case True
      with nk ns obtain m rest where nonempty: "ns = m # rest"
        by (auto simp add: upt_conv_Cons simp del: upt_Suc)
      from chunk_starts_with_send [OF r [unfolded nonempty]] obtain ok rest1 where
        t1: "tr1 = SendTo ip UDP_PORT message ok # rest1" by blast
      from Cons.prems(2) s r notack True have e: "exit = exit1" and t: "tr = tr0 @ ([Sleep 1] @ tr1)"
        by (auto split: option.splits bool.splits)
      have later: ?thesis if "tr1 = pre2 @ WaitForAck a (Some False) # post" for pre2
      proof -
        from Cons.IH [OF ns r that]
        have "(post = [] \<and> exit1 = Return False
                \<and> length (filter is_send tr1) = MAX_RETRIES + 1 - Suc k)
              \<or> (\<exists>ok post'. post = Sleep 1 # SendTo ip UDP_PORT message ok # post')" .
        with e t one True nk show ?thesis by auto
      qed
      show ?thesis
      proof (cases "result = Some False")
        case True
        from send_and_wait_cases [OF s] True
        have "tr0 = [SendTo ip UDP_PORT message True, WaitForAck ack_id (Some False)]" by simp
        with t Cons.prems(3) t1
        have "post = Sleep 1 # SendTo ip UDP_PORT message ok # rest1
              \<or> (\<exists>pre2. tr1 = pre2 @ WaitForAck a (Some False) # post)"
          by (auto simp add: Cons_eq_append_conv append_eq_Cons_conv)
        with later show ?thesis by blast
      next
        case False
        from nack_later [OF s False] t Cons.prems(3)
        obtain pre1 where "[Sleep 1] @ tr1 = pre1 @ WaitForAck a (Some False) # post" by metis
        then obtain pre2 where "tr1 = pre2 @ WaitForAck a (Some False) # post"
          by (auto simp add: Cons_eq_append_conv)
        with later show ?thesis by blast
      qed
    next
      case False
      with Cons.prems(2) s notack have t: "tr = tr0" and e: "exit = Return False"
        by (auto split: option.splits bool.splits)
      from False nk kle have "MAX_RETRIES + 1 - k = 1" by simp
      with nack_in_attempt [OF s] t Cons.prems(3) e one show ?thesis by auto
    qed
  qed
qed

text \<open>
  C1, as the code has it. In the loops of TALK, FILE and END a wait that returns the
  outcome of a NACK is the last action of the loop, which is left with \<open>False\<close>: no
  send follows it, whatever is left of the attempts. The CHUNK loop goes on after a
  NACK as after a timeout: either the NACK came in the last of the \<^verbatim>\<open>MAX_RETRIES\<close>
  attempts, and the loop returns \<open>False\<close> after \<^verbatim>\<open>MAX_RETRIES\<close> sends, or the loop
  sleeps a second and sends the chunk again.
\<close>

theorem nack_ends_operation:
  "(talk_attempts env ip ack_id message ns acks = (exit, tr, acks')
      \<and> tr = pre @ WaitForAck a (Some False) # post
      \<longrightarrow> post = [] \<and> exit = Return False)
   \<and> (file_attempts env ip ack_id message ns acks = (exit, tr, acks')
      \<and> tr = pre @ WaitForAck a (Some False) # post
      \<longrightarrow> post = [] \<and> exit = Return False)
   \<and> (end_attempts env ip ack_id message ns acks = (exit, tr, acks')
      \<and> tr = pre @ WaitForAck a (Some False) # post
      \<longrightarrow> post = [] \<and> exit = Return False)
   \<and> (chunk_attempts env ip ack_id message [1..<MAX_RETRIES + 1] acks = (exit, tr, acks')
      \<and> tr = pre @ WaitForAck a (Some False) # post
      \<longrightarrow> (post = [] \<and> exit = Return False \<and> length (filter is_send tr) = MAX_RETRIES)
          \<or> (\<exists>ok post'. post = Sleep 1 # SendTo ip UDP_PORT message ok # post'))"
  using talk_nack_last [of env ip ack_id message ns acks exit tr acks' pre a post]
    file_nack_last [of env ip ack_id message ns acks exit tr acks' pre a post]
    end_nack_last [of env ip ack_id message ns acks exit tr acks' pre a post]
    chunk_nack_retried [of "[1..<MAX_RETRIES + 1]" 1 env ip ack_id message acks exit tr acks' pre a post]
  by auto

theorem nack_ends_operation_witness:
  "fst (snd (talk_attempts (nack_at 2 ''m1'') ''10.0.0.2'' ''m1'' ''TALK m1 oi''
               [1..<MAX_RETRIES + 1] Map.empty))
     = [SendTo ''10.0.0.2'' 5000 ''TALK m1 oi'' True, WaitForAck ''m1'' None, Sleep 1,
        SendTo ''10.0.0.2'' 5000 ''TALK m1 oi'' True] @ WaitForAck ''m1'' (Some False) # []
   \<and> fst (talk_attempts (nack_at 2 ''m1'') ''10.0.0.2'' ''m1'' ''TALK m1 oi''
               [1..<MAX_RETRIES + 1] Map.empty) = Return False
   \<and> fst (snd (file_attempts (nack_at 1 ''f1'') ''10.0.0.2'' ''f1'' ''FILE f1 a.txt 1''
               [1..<MAX_RETRIES + 1] Map.empty))
     = [SendTo ''10.0.0.2'' 5000 ''FILE f1 a.txt 1'' True] @ WaitForAck ''f1'' (Some False) # []
   \<and> fst (file_attempts (nack_at 1 ''f1'') ''10.0.0.2'' ''f1'' ''FILE f1 a.txt 1''
               [1..<MAX_RETRIES + 1] Map.empty) = Return False
   \<and> fst (snd (end_attempts (nack_at 1 ''f1'') ''10.0.0.2'' ''f1'' ''END f1 00''
               [1..<MAX_RETRIES + 1] Map.empty))
     = [SendTo ''10.0.0.2'' 5000 ''END f1 00'' True] @ WaitForAck ''f1'' (Some False) # []
   \<and> fst (end_attempts (nack_at 1 ''f1'') ''10.0.0.2'' ''f1'' ''END f1 00''
               [1..<MAX_RETRIES + 1] Map.empty) = Return False
   \<and> fst (snd (chunk_attempts (nack_at 1 ''f1-0'') ''10.0.0.2'' ''f1-0'' ''CHUNK f1 0 QQ==''
               [1..<MAX_RETRIES + 1] Map.empty))
     = [SendTo ''10.0.0.2'' 5000 ''CHUNK f1 0 QQ=='' True] @ WaitForAck ''f1-0'' (Some False) #
         Sleep 1 # SendTo ''10.0.0.2'' UDP_PORT ''CHUNK f1 0 QQ=='' True #
         tl (concat (map (\<lambda>n. unanswered silent ''10.0.0.2'' ''CHUNK f1 0 QQ=='' ''f1-0'' @ backoff n)
               [2..<MAX_RETRIES + 1]))"
proof -
  let ?talk = "talk_attempts (nack_at 2 ''m1'') ''10.0.0.2'' ''m1'' ''TALK m1 oi''
                 [1..<MAX_RETRIES + 1] Map.empty"
  let ?file = "file_attempts (nack_at 1 ''f1'') ''10.0.0.2'' ''f1'' ''FILE f1 a.txt 1''
                 [1..<MAX_RETRIES + 1] Map.empty"
  let ?end = "end_attempts (nack_at 1 ''f1'') ''10.0.0.2'' ''f1'' ''END f1 00''
                 [1..<MAX_RETRIES + 1] Map.empty"
  let ?chunk = "chunk_attempts (nack_at 1 ''f1-0'') ''10.0.0.2'' ''f1-0'' ''CHUNK f1 0 QQ==''
                 [1..<MAX_RETRIES + 1] Map.empty"
  have t: "fst (snd ?talk)
     = [SendTo ''10.0.0.2'' 5000 ''TALK m1 oi'' True, WaitForAck ''m1'' None, Sleep 1,
        SendTo ''10.0.0.2'' 5000 ''TALK m1 oi'' True] @ WaitForAck ''m1'' (Some False) # []"
    unfolding attempts_list
    by (simp add: nack_at_def silent_def send_and_wait_def wait_for_ack_def backoff_def
        MAX_RETRIES_def UDP_PORT_def)
  have f: "fst (snd ?file)
     = [SendTo ''10.0.0.2'' 5000 ''FILE f1 a.txt 1'' True] @ WaitForAck ''f1'' (Some False) # []"
    unfolding attempts_list
    by (simp add: nack_at_def silent_def send_and_wait_def wait_for_ack_def
        MAX_RETRIES_def UDP_PORT_def)
  have e: "fst (snd ?end)
     = [SendTo ''10.0.0.2'' 5000 ''END f1 00'' True] @ WaitForAck ''f1'' (Some False) # []"
    unfolding attempts_list
    by (simp add: nack_at_def silent_def send_and_wait_def wait_for_ack_def
        MAX_RETRIES_def UDP_PORT_def)
  have c: "fst (snd ?chunk)
     = [SendTo ''10.0.0.2'' 5000 ''CHUNK f1 0 QQ=='' True] @ WaitForAck ''f1-0'' (Some False) #
         Sleep 1 # SendTo ''10.0.0.2'' UDP_PORT ''CHUNK f1 0 QQ=='' True #
         tl (concat (map (\<lambda>n. unanswered silent ''10.0.0.2'' ''CHUNK f1 0 QQ=='' ''f1-0'' @ backoff n)
               [2..<MAX_RETRIES + 1]))"
    unfolding attempts_list
    by (simp add: nack_at_def silent_def send_and_wait_def wait_for_ack_def unanswered_def
        backoff_def MAX_RETRIES_def UDP_PORT_def upt_rec)
  have pt: "?talk = (fst ?talk, fst (snd ?talk), snd (snd ?talk))" by simp
  have pf: "?file = (fst ?file, fst (snd ?file), snd (snd ?file))" by simp
  have pe: "?end = (fst ?end, fst (snd ?end), snd (snd ?end))" by simp
  from nack_ends_operation [of "nack_at 2 ''m1''" "''10.0.0.2''" "''m1''" "''TALK m1 oi''"
      "[1..<MAX_RETRIES + 1]" Map.empty "fst ?talk" "fst (snd ?talk)" "snd (snd ?talk)"
      "[SendTo ''10.0.0.2'' 5000 ''TALK m1 oi'' True, WaitForAck ''m1'' None, Sleep 1,
        SendTo ''10.0.0.2'' 5000 ''TALK m1 oi'' True]" "''m1''" "[]"] pt t
  have rt: "fst ?talk = Return False" by blast
  from nack_ends_operation [of "nack_at 1 ''f1''" "''10.0.0.2''" "''f1''" "''FILE f1 a.txt 1''"
      "[1..<MAX_RETRIES + 1]" Map.empty "fst ?file" "fst (snd ?file)" "snd (snd ?file)"
      "[SendTo ''10.0.0.2'' 5000 ''FILE f1 a.txt 1'' True]" "''f1''" "[]"] pf f
  have rf: "fst ?file = Return False" by blast
  from nack_ends_operation [of "nack_at 1 ''f1''" "''10.0.0.2''" "''f1''" "''END f1 00''"
      "[1..<MAX_RETRIES + 1]" Map.empty "fst ?end" "fst (snd ?end)" "snd (snd ?end)"
      "[SendTo ''10.0.0.2'' 5000 ''END f1 00'' True]" "''f1''" "[]"] pe e
  have re: "fst ?end = Return False" by blast
  from t rt f rf e re c show ?thesis by blast
qed


text \<open>The CHUNK loop after a NACK in attempt 1 and an ACK in attempt 2: the chunk is sent
  again and the loop ends by \<^verbatim>\<open>break\<close>, the chunk delivered.\<close>

theorem nack_does_not_stop_chunk:
  "fst (chunk_attempts (nack_then_ack ''f1-0'') ''10.0.0.2'' ''f1-0'' ''CHUNK f1 0 QQ==''
          [1..<MAX_RETRIES + 1] Map.empty) = Break
   \<and> fst (snd (chunk_attempts (nack_then_ack ''f1-0'') ''10.0.0.2'' ''f1-0'' ''CHUNK f1 0 QQ==''
          [1..<MAX_RETRIES + 1] Map.empty))
     = [SendTo ''10.0.0.2'' 5000 ''CHUNK f1 0 QQ=='' True, WaitForAck ''f1-0'' (Some False),
        Sleep 1,
        SendTo ''10.0.0.2'' 5000 ''CHUNK f1 0 QQ=='' True, WaitForAck ''f1-0'' (Some True)]"
  unfolding attempts_list
  by (simp add: nack_then_ack_def silent_def send_and_wait_def wait_for_ack_def
      MAX_RETRIES_def UDP_PORT_def)


section \<open>Reassembly\<close>

lemma update_fresh: "k \<notin> fst ` set al \<Longrightarrow> AList.update k v al = al @ [(k, v)]"
  by (induction al) auto

lemma chunk_of_parts:
  assumes "chunk_of b64decode file_id data = Some (seq, payload)"
  shows "\<exists>s p. py_split 3 (py_strip data) = [''CHUNK'', file_id, s, p]
           \<and> py_int s = Some seq \<and> b64decode p = Some payload"
  using assms
  by (auto simp add: chunk_of_def split: list.splits if_splits option.splits)

lemma receive_chunk:
  assumes pending: "pending_files st file_id = Some (filename, file_size, chunks_received, sender)"
      and stored: "file_chunks st file_id = Some stored"
      and chunk: "chunk_of b64decode file_id data = Some (seq, payload)"
      and fresh: "seq \<notin> fst ` set stored"
  shows "pending_files (receive b64decode sha256_hex st (current_time, data, addr)) file_id
           = Some (filename, file_size, chunks_received + 1, sender)
       \<and> file_chunks (receive b64decode sha256_hex st (current_time, data, addr)) file_id
           = Some (stored @ [(seq, payload)])
       \<and> disk (receive b64decode sha256_hex st (current_time, data, addr)) = disk st"
proof -
  from chunk_of_parts [OF chunk] obtain s p where
    parts: "py_split 3 (py_strip data) = [''CHUNK'', file_id, s, p]"
    and seq: "py_int s = Some seq" and payload: "b64decode p = Some payload"
    by blast
  from fresh have absent: "map_of stored seq = None"
    by (simp add: map_of_eq_None_iff)
  from parts seq payload pending stored absent fresh show ?thesis
    by (simp add: receive_def handle_message_def on_chunk_def chunk_try_def Let_def
        send_message_to_ip_def
        update_fresh)
qed

lemma receive_chunks:
  assumes "pending_files st file_id = Some (filename, file_size, chunks_received, sender)"
      and "file_chunks st file_id = Some stored"
      and "map (\<lambda>d. chunk_of b64decode file_id (fst (snd d))) datagrams = map Some arrivals"
      and "distinct (map fst (stored @ arrivals))"
  shows "pending_files (listen_for_messages b64decode sha256_hex st datagrams) file_id
           = Some (filename, file_size, chunks_received + int (length arrivals), sender)
       \<and> file_chunks (listen_for_messages b64decode sha256_hex st datagrams) file_id
           = Some (stored @ arrivals)
       \<and> disk (listen_for_messages b64decode sha256_hex st datagrams) = disk st"
  using assms
proof (induction datagrams arbitrary: st stored chunks_received arrivals)
  case Nil
  then show ?case by (simp add: listen_for_messages_def)
next
  case (Cons d datagrams)
  obtain current_time data addr where d: "d = (current_time, data, addr)"
    by (metis prod_cases3)
  from Cons.prems(3) obtain c rest where arr: "arrivals = c # rest"
    and c: "chunk_of b64decode file_id (fst (snd d)) = Some c"
    and rest: "map (\<lambda>d. chunk_of b64decode file_id (fst (snd d))) datagrams = map Some rest"
    by (cases arrivals) auto
  obtain seq payload where sp: "c = (seq, payload)" by (cases c)
  from Cons.prems(4) arr sp have fresh: "seq \<notin> fst ` set stored"
    by auto
  let ?st = "receive b64decode sha256_hex st (current_time, data, addr)"
  from c d sp have c': "chunk_of b64decode file_id data = Some (seq, payload)" by simp
  from receive_chunk [OF Cons.prems(1) Cons.prems(2) c' fresh, of sha256_hex current_time addr]
  have p1: "pending_files ?st file_id = Some (filename, file_size, chunks_received + 1, sender)"
    and s1: "file_chunks ?st file_id = Some (stored @ [(seq, payload)])"
    and d1: "disk ?st = disk st"
    by simp_all
  from Cons.prems(4) arr sp have dist: "distinct (map fst ((stored @ [(seq, payload)]) @ rest))"
    by simp
  from Cons.IH [OF p1 s1 rest dist] d1 arr sp d show ?case
    by (simp add: listen_for_messages_def add.assoc)
qed

lemma write_chunks_lookup:
  "\<forall>k\<in>set ks. map_of chunks k = Some (f k) \<Longrightarrow> write_chunks chunks ks = Inr (concat (map f ks))"
  by (induction ks) auto

lemma write_chunks_ascending:
  assumes dist: "distinct (map fst chunks)"
      and perm: "mset ascending = mset chunks"
      and sorted: "sorted (map fst ascending)"
  shows "write_chunks chunks (sort (map fst chunks)) = Inr (concat (map snd ascending))"
proof -
  from perm have keys: "mset (map fst ascending) = mset (map fst chunks)"
    by (metis mset_map)
  from properties_for_sort [OF keys sorted] have order: "sort (map fst chunks) = map fst ascending" .
  from perm have same: "set ascending = set chunks" by (rule mset_eq_setD)
  have look: "\<forall>k\<in>set (map fst ascending). map_of chunks k = Some (the (map_of chunks k))"
  proof
    fix k assume "k \<in> set (map fst ascending)"
    with same have "k \<in> fst ` set chunks" by simp
    then obtain v where "map_of chunks k = Some v"
      by (metis domD dom_map_of_conv_image_fst)
    then show "map_of chunks k = Some (the (map_of chunks k))" by simp
  qed
  have payloads: "map (\<lambda>k. the (map_of chunks k)) (map fst ascending) = map snd ascending"
  proof -
    have "\<forall>kv\<in>set ascending. the (map_of chunks (fst kv)) = snd kv"
    proof
      fix kv assume "kv \<in> set ascending"
      with same have "(fst kv, snd kv) \<in> set chunks" by simp
      with dist have "map_of chunks (fst kv) = Some (snd kv)" by (rule map_of_is_SomeI)
      then show "the (map_of chunks (fst kv)) = snd kv" by simp
    qed
    then show ?thesis by simp
  qed
  from write_chunks_lookup [OF look]
  have "write_chunks chunks (map fst ascending)
          = Inr (concat (map (\<lambda>k. the (map_of chunks k)) (map fst ascending)))" .
  with order payloads show ?thesis by (simp only:)
qed

lemma receive_end:
  assumes parts: "py_split 3 (py_strip data) = ''END'' # file_id # received_hash # rest"
      and pending: "pending_files st file_id = Some (filename, file_size, chunks_received, sender)"
      and chunks: "file_chunks st file_id = Some chunks"
      and reassembled: "write_chunks chunks (sort (map fst chunks)) = Inr bytes_written"
      and fs_ok: "\<forall>operation. \<not> refused (disk st) operation (''/root/'' @ filename)"
  shows "files (disk (receive b64decode sha256_hex st (current_time, data, addr)))
           (''/root/'' @ filename)
         = (if sha256_hex bytes_written = received_hash then Some bytes_written else None)"
  using assms
  by (simp add: receive_def handle_message_def on_end_def end_try_def Let_def open_wb_def
      write_all_def calculate_file_hash_def read_all_def os_remove_def send_message_to_ip_def
      print_block_def)

text \<open>
  C4. Take a pending transfer with some chunks stored, let further chunks with new,
  pairwise different sequence numbers arrive in any order, and then an END. The bytes
  written to the output file are the payloads of all stored chunks in ascending order
  of sequence number (\<open>ascending\<close> is that arrangement of the chunks; it does not
  depend on the order of arrival): the file holds exactly these bytes if their hash is
  the one END carries, and is removed if not.
\<close>

theorem reassembly_in_sequence_order:
  assumes pending: "pending_files st file_id = Some (filename, file_size, chunks_received, sender)"
      and stored: "file_chunks st file_id = Some stored"
      and arrivals: "map (\<lambda>d. chunk_of b64decode file_id (fst (snd d))) datagrams = map Some arrivals"
      and dist: "distinct (map fst (stored @ arrivals))"
      and end_parts: "py_split 3 (py_strip end_data) = ''END'' # file_id # received_hash # rest"
      and fs_ok: "\<forall>operation. \<not> refused (disk st) operation (''/root/'' @ filename)"
      and perm: "mset ascending = mset (stored @ arrivals)"
      and sorted: "sorted (map fst ascending)"
  shows "files (disk (listen_for_messages b64decode sha256_hex st
                        (datagrams @ [(end_time, end_data, end_addr)])))
           (''/root/'' @ filename)
         = (if sha256_hex (concat (map snd ascending)) = received_hash
            then Some (concat (map snd ascending)) else None)"
proof -
  let ?st = "listen_for_messages b64decode sha256_hex st datagrams"
  from receive_chunks [OF pending stored arrivals dist, of sha256_hex]
  have p: "pending_files ?st file_id
             = Some (filename, file_size, chunks_received + int (length arrivals), sender)"
    and c: "file_chunks ?st file_id = Some (stored @ arrivals)"
    and d: "disk ?st = disk st"
    by simp_all
  from fs_ok d have ok: "\<forall>operation. \<not> refused (disk ?st) operation (''/root/'' @ filename)"
    by simp
  note w = write_chunks_ascending [OF dist perm sorted]
  from receive_end [OF end_parts p c w ok, of b64decode sha256_hex end_time end_addr]
  show ?thesis by (simp add: listen_for_messages_def)
qed

theorem reassembly_in_sequence_order_witness:
  "map (\<lambda>d. chunk_of sample_b64decode ''f2'' (fst (snd d)))
       [(1::real, ''CHUNK f2 1 Qg=='', (''10.0.0.1'', 40000::int)),
        (2, ''CHUNK f2 0 QQ=='', (''10.0.0.1'', 40000))]
     = map Some [(1, [66]), (0, [65])]
   \<and> py_split 3 (py_strip ''END f2 38164fbd17603d73f696b8b4d72664d735bb6a7c88577687fd2ae33fd6964153'')
       = ''END'' # ''f2'' # ''38164fbd17603d73f696b8b4d72664d735bb6a7c88577687fd2ae33fd6964153'' # []
   \<and> files (disk (listen_for_messages sample_b64decode sample_sha256_hex (announced_state empty_disk)
        ([(1, ''CHUNK f2 1 Qg=='', (''10.0.0.1'', 40000)), (2, ''CHUNK f2 0 QQ=='', (''10.0.0.1'', 40000))]
         @ [(3, ''END f2 38164fbd17603d73f696b8b4d72664d735bb6a7c88577687fd2ae33fd6964153'',
             (''10.0.0.1'', 40000))]))) ''/root/b.txt''
       = Some [65, 66]"
proof -
  have p: "pending_files (announced_state empty_disk) ''f2''
             = Some (''b.txt'', 2, 0, ''Dispositivo desconhecido'')"
    by (simp add: announced_state_def initial_state_def)
  have s: "file_chunks (announced_state empty_disk) ''f2'' = Some []"
    by (simp add: announced_state_def initial_state_def)
  have a: "map (\<lambda>d. chunk_of sample_b64decode ''f2'' (fst (snd d)))
       [(1::real, ''CHUNK f2 1 Qg=='', (''10.0.0.1'', 40000::int)),
        (2, ''CHUNK f2 0 QQ=='', (''10.0.0.1'', 40000))]
     = map Some [(1, [66]), (0, [65])]"
    by (simp add: chunk_of_def py_strip_def isspace_def numeral_3_eq_3 py_int_def
        int_space_def unsigned_int_def digit_val_def sample_b64decode_def)
  have d: "distinct (map fst ([] @ [(1::int, [66::8 word]), (0, [65])]))" by simp
  have e: "py_split 3 (py_strip ''END f2 38164fbd17603d73f696b8b4d72664d735bb6a7c88577687fd2ae33fd6964153'')
       = ''END'' # ''f2'' # ''38164fbd17603d73f696b8b4d72664d735bb6a7c88577687fd2ae33fd6964153'' # []"
    by (simp add: py_strip_def isspace_def numeral_3_eq_3)
  have f: "\<forall>operation. \<not> refused (disk (announced_state empty_disk)) operation (''/root/'' @ ''b.txt'')"
    by (simp add: announced_state_def initial_state_def empty_disk_def)
  have m: "mset [(0::int, [65::8 word]), (1, [66])] = mset ([] @ [(1, [66]), (0, [65])])"
    by simp
  have o: "sorted (map fst [(0::int, [65::8 word]), (1, [66])])" by simp
  from reassembly_in_sequence_order [where b64decode = sample_b64decode
      and sha256_hex = sample_sha256_hex and end_time = 3 and end_addr = "(''10.0.0.1'', 40000)",
      OF p s a d e f m o]
  have "files (disk (listen_for_messages sample_b64decode sample_sha256_hex (announced_state empty_disk)
        ([(1, ''CHUNK f2 1 Qg=='', (''10.0.0.1'', 40000)), (2, ''CHUNK f2 0 QQ=='', (''10.0.0.1'', 40000))]
         @ [(3, ''END f2 38164fbd17603d73f696b8b4d72664d735bb6a7c88577687fd2ae33fd6964153'',
             (''10.0.0.1'', 40000))]))) ''/root/b.txt''
       = Some [65, 66]"
    by (simp add: sample_sha256_hex_def)
  with a e show ?thesis by blast
qed

end
